theory Spec2Isabelle
  imports Main
begin

section \<open>Values, errors and string primitives of the host language\<close>

text \<open>
  The program is TypeScript. A \<^typ>\<open>string\<close> stands for a JavaScript string whose code
  units are all below 256, one \<^typ>\<open>char\<close> per code unit. Characters that cannot be
  written inside an Isabelle string literal are given by code: \<open>CHR 0x5C\<close> is the
  backslash, \<open>CHR 0x27\<close> the single quote, \<open>CHR 0x22\<close> the double quote,
  \<open>CHR 0x0D\<close> carriage return and \<open>CHR 0x0A\<close> line feed.
\<close>

datatype jsval =
    Undefined
  | Null
  | Num nat
  | Str string
  | Ref nat
  | VBuf
  | VEsc

text \<open>
  \<open>Ref r\<close> is a reference to the plain object stored at address \<open>r\<close>; \<open>VBuf\<close> is
  the array created by \<open>var $buffer=[]\<close> and \<open>VEsc\<close> the function bound to \<open>$xml\<close>.
  \<open>Num\<close> holds a non-negative integer below \<open>2^53\<close>.
\<close>

datatype error =
    Error string
  | TypeError
  | ReferenceError string
  | Unsupported
  | OutOfFuel

text \<open>
  \<open>Error msg\<close> is \<open>new Error(msg)\<close> thrown by the program itself. \<open>OutOfFuel\<close> is not
  an outcome of the program: it marks a run of the model that was cut off, which stands
  for a program that has not returned. \<open>Unsupported\<close> marks generated code that lies
  outside the fragment of JavaScript whose evaluation is modelled below.
\<close>

fun truthy :: "jsval \<Rightarrow> bool" where
  "truthy Undefined = False"
| "truthy Null = False"
| "truthy (Num n) = (n \<noteq> 0)"
| "truthy (Str s) = (s \<noteq> [])"
| "truthy (Ref r) = True"
| "truthy VBuf = True"
| "truthy VEsc = True"

definition slice :: "string \<Rightarrow> nat \<Rightarrow> nat \<Rightarrow> string" where
  "slice s a b = take (b - a) (drop a s)"

definition substring :: "string \<Rightarrow> nat \<Rightarrow> nat \<Rightarrow> string" where
  "substring s a b = slice s (min a b) (max a b)"

definition charAt :: "string \<Rightarrow> nat \<Rightarrow> string option" where
  "charAt s i = (if i < length s then Some [s ! i] else None)"

text \<open>\<open>charAt s i\<close> is \<open>s[i]\<close>: a one-character string, or \<open>None\<close> for \<open>undefined\<close>.\<close>

fun find_sub :: "string \<Rightarrow> string \<Rightarrow> nat option" where
  "find_sub pat [] = (if pat = [] then Some 0 else None)"
| "find_sub pat (x # xs) =
     (if take (length pat) (x # xs) = pat then Some 0
      else map_option Suc (find_sub pat xs))"

definition indexOf :: "string \<Rightarrow> string \<Rightarrow> nat \<Rightarrow> nat option" where
  "indexOf s pat from =
     map_option (\<lambda>k. min from (length s) + k) (find_sub pat (drop from s))"

text \<open>
  \<open>indexOf s pat from\<close> is \<open>s.indexOf(pat, from)\<close>, with \<open>None\<close> for the result \<open>-1\<close>.
\<close>

definition isWhiteSpace :: "char \<Rightarrow> bool" where
  "isWhiteSpace c \<longleftrightarrow>
     c \<in> {CHR 0x09, CHR 0x0A, CHR 0x0B, CHR 0x0C, CHR 0x0D, CHR 0x20, CHR 0xA0}"

definition trim :: "string \<Rightarrow> string" where
  "trim s = rev (dropWhile isWhiteSpace (rev (dropWhile isWhiteSpace s)))"

fun split :: "char \<Rightarrow> string \<Rightarrow> string list" where
  "split sep [] = [[]]"
| "split sep (x # xs) =
     (if x = sep then [] # split sep xs
      else (case split sep xs of
              [] \<Rightarrow> [[x]]
            | p # ps \<Rightarrow> (x # p) # ps))"


section \<open>Options\<close>

record DelimiterOptions =
  d_open :: string
  d_close :: string
  d_escape :: string
  d_unescape :: string
  d_import :: string
  d_comment :: string

record PartialDelimiterOptions =
  p_open :: "string option"
  p_close :: "string option"
  p_escape :: "string option"
  p_unescape :: "string option"
  p_import :: "string option"
  p_comment :: "string option"

datatype minify = MinifyBool bool | MinifyOptions "(string \<times> bool) list"

record Options =
  base :: string
  ext :: string
  delimiters :: DelimiterOptions
  escapeOption :: "jsval \<Rightarrow> error + string"
  loadFile :: "string \<Rightarrow> error + string"
  cache :: jsval
  minify :: minify

record PartialOptions =
  base_opt :: "string option"
  ext_opt :: "string option"
  delimiters_opt :: "PartialDelimiterOptions option"
  escape_opt :: "(jsval \<Rightarrow> error + string) option"
  loadFile_opt :: "(string \<Rightarrow> error + string) option"
  cache_opt :: "jsval option"
  minify_opt :: "minify option"

definition DEFAULT_DELIMITERS :: DelimiterOptions where
  "DEFAULT_DELIMITERS =
     \<lparr>d_open = ''<%'', d_close = ''%>'', d_escape = ''='', d_unescape = ''-'',
      d_import = ''+'', d_comment = ''!''\<rparr>"

definition DEFAULT_MINIFY :: minify where
  "DEFAULT_MINIFY = MinifyOptions
     [(''collapseBooleanAttributes'', True),
      (''collapseInlineTagWhitespace'', True),
      (''collapseWhitespace'', True),
      (''minifyCSS'', True),
      (''minifyJS'', True),
      (''removeComments'', True),
      (''removeRedundantAttributes'', True),
      (''removeScriptTypeAttributes'', True),
      (''removeStyleLinkTypeAttributes'', True),
      (''useShortDoctype'', True)]"


definition defaultLoadFile ::
  "(string \<Rightarrow> string \<Rightarrow> error + string) \<Rightarrow> string \<Rightarrow> string \<Rightarrow> string \<Rightarrow> error + string"
where
  "defaultLoadFile readFile b e templateName =
     readFile b (templateName @ (if e \<noteq> [] then ''.'' @ e else []))"

text \<open>
  The default loader reads the file \<open>path.resolve(options.base, templateName + (options.ext ?
  "." + options.ext : ""))\<close>. The file system is the parameter \<open>readFile\<close>, which is
  given the base directory and the file name. In \<^typ>\<open>Options\<close> the field
  \<^const>\<open>loadFile\<close> is the loader as a function of the template name.
\<close>


section \<open>The escaper\<close>

definition digitChar :: "nat \<Rightarrow> char" where
  "digitChar d = ''0123456789'' ! d"

fun decimal :: "nat \<Rightarrow> string" where
  "decimal n = (if n < 10 then [digitChar n] else decimal (n div 10) @ [digitChar (n mod 10)])"

declare decimal.simps [simp del]

fun String :: "jsval \<Rightarrow> error + string" where
  "String (Str s) = Inr s"
| "String Undefined = Inr ''undefined''"
| "String Null = Inr ''null''"
| "String (Num n) = Inr (decimal n)"
| "String (Ref r) = Inl Unsupported"
| "String VBuf = Inl Unsupported"
| "String VEsc = Inl Unsupported"

fun escapeChar :: "char \<Rightarrow> string" where
  "escapeChar c =
     (if c = CHR ''<'' then ''&lt;''
      else if c = CHR ''>'' then ''&gt;''
      else if c = CHR ''&'' then ''&amp;''
      else if c = CHR 0x27 then ''&apos;''
      else if c = CHR 0x22 then ''&quot;''
      else [c])"

definition replaceClass :: "char set \<Rightarrow> (char \<Rightarrow> string) \<Rightarrow> string \<Rightarrow> string" where
  "replaceClass cls f s = concat (map (\<lambda>c. if c \<in> cls then f c else [c]) s)"

text \<open>
  \<open>replaceClass cls f s\<close> is \<open>s.replace(/[cls]/g, f)\<close>: every character of the class is
  replaced by what the callback returns for it, every other character is kept.
\<close>

definition escape :: "jsval \<Rightarrow> error + string" where
  "escape unsafe =
     (if unsafe = Null \<or> unsafe = Undefined then Inr []
      else (case String unsafe of
              Inl e \<Rightarrow> Inl e
            | Inr s \<Rightarrow>
                Inr (replaceClass {CHR ''<'', CHR ''>'', CHR ''&'', CHR 0x27, CHR 0x22}
                       escapeChar s)))"


section \<open>Merging the options\<close>

definition assignDelimiters :: "DelimiterOptions \<Rightarrow> PartialDelimiterOptions \<Rightarrow> DelimiterOptions" where
  "assignDelimiters d p =
     \<lparr>d_open = (case p_open p of None \<Rightarrow> d_open d | Some s \<Rightarrow> s),
      d_close = (case p_close p of None \<Rightarrow> d_close d | Some s \<Rightarrow> s),
      d_escape = (case p_escape p of None \<Rightarrow> d_escape d | Some s \<Rightarrow> s),
      d_unescape = (case p_unescape p of None \<Rightarrow> d_unescape d | Some s \<Rightarrow> s),
      d_import = (case p_import p of None \<Rightarrow> d_import d | Some s \<Rightarrow> s),
      d_comment = (case p_comment p of None \<Rightarrow> d_comment d | Some s \<Rightarrow> s)\<rparr>"

definition handleMinify :: "minify option \<Rightarrow> minify" where
  "handleMinify m =
     (case m of
        None \<Rightarrow> MinifyBool False
      | Some (MinifyBool b) \<Rightarrow> (if b then DEFAULT_MINIFY else MinifyBool False)
      | Some (MinifyOptions os) \<Rightarrow> MinifyOptions os)"

definition handleOptions ::
  "(string \<Rightarrow> string \<Rightarrow> error + string) \<Rightarrow> PartialOptions option \<Rightarrow> Options"
where
  "handleOptions readFile options =
     (case options of
        None \<Rightarrow>
          \<lparr>base = [], ext = [], delimiters = DEFAULT_DELIMITERS, escapeOption = escape,
           loadFile = defaultLoadFile readFile [] [], cache = Null,
           minify = MinifyBool False\<rparr>
      | Some p \<Rightarrow>
          (let b = (case base_opt p of None \<Rightarrow> [] | Some s \<Rightarrow> s);
               e = (case ext_opt p of None \<Rightarrow> [] | Some s \<Rightarrow> s)
           in \<lparr>base = b, ext = e,
               delimiters =
                 (case delimiters_opt p of
                    None \<Rightarrow> DEFAULT_DELIMITERS
                  | Some d \<Rightarrow> assignDelimiters DEFAULT_DELIMITERS d),
               escapeOption = (case escape_opt p of None \<Rightarrow> escape | Some f \<Rightarrow> f),
               loadFile =
                 (case loadFile_opt p of
                    None \<Rightarrow> defaultLoadFile readFile b e
                  | Some f \<Rightarrow> f),
               cache = (case cache_opt p of None \<Rightarrow> Null | Some c \<Rightarrow> c),
               minify = handleMinify (minify_opt p)\<rparr>))"

text \<open>
  \<open>handleOptions\<close> has no branch that throws: \<open>Object.assign\<close> copies whatever fields
  the caller gave over the defaults.
\<close>


section \<open>Parsing a template into the text of a function body\<close>

abbreviation OPEN :: "Options \<Rightarrow> string" where "OPEN options \<equiv> d_open (delimiters options)"
abbreviation CLOSE :: "Options \<Rightarrow> string" where "CLOSE options \<equiv> d_close (delimiters options)"
abbreviation COMMENT :: "Options \<Rightarrow> string" where "COMMENT options \<equiv> d_comment (delimiters options)"
abbreviation ESCAPE :: "Options \<Rightarrow> string" where "ESCAPE options \<equiv> d_escape (delimiters options)"
abbreviation UNESCAPE :: "Options \<Rightarrow> string" where "UNESCAPE options \<equiv> d_unescape (delimiters options)"
abbreviation IMPORT :: "Options \<Rightarrow> string" where "IMPORT options \<equiv> d_import (delimiters options)"

definition closeTagError :: "string \<Rightarrow> error" where
  "closeTagError endTag =
     Error (''Could not find matching close tag '' @ [CHR 0x27] @ endTag @ [CHR 0x27] @ ''.'')"

definition tagContents :: "string \<Rightarrow> nat \<Rightarrow> string \<Rightarrow> error + string \<times> int" where
  "tagContents unparsed i endTag =
     (case indexOf unparsed endTag i of
        None \<Rightarrow> Inl (closeTagError endTag)
      | Some e \<Rightarrow> Inr (substring unparsed i e, int e + int (length endTag) - 1))"

text \<open>
  \<open>tagContents\<close> returns the tag body and the new value of the cursor \<open>i\<close>, which is the
  index of the last character of the close marker; the loop's \<open>++i\<close> then steps past it.
\<close>

definition importLocals :: "string list \<Rightarrow> string" where
  "importLocals importContents =
     (case importContents of
        _ # l # _ \<Rightarrow> (if l \<noteq> [] \<and> trim l \<noteq> [] then trim l else ''$locals'')
      | _ \<Rightarrow> ''$locals'')"

definition cacheError :: error where
  "cacheError = Error ''The template cache is unimplemented''"

fun parseLoop :: "nat \<Rightarrow> Options \<Rightarrow> string \<Rightarrow> nat \<Rightarrow> string \<Rightarrow> error + string"
and parseTemplate :: "nat \<Rightarrow> Options \<Rightarrow> string \<Rightarrow> error + string"
and getTemplate :: "nat \<Rightarrow> Options \<Rightarrow> string \<Rightarrow> error + string"
where
  "parseLoop 0 options unparsed i parsed = Inl OutOfFuel"
| "parseLoop (Suc n) options unparsed i parsed =
     (if \<not> i < length unparsed then Inr (parsed @ ''`);}'')
      else if slice unparsed i (i + length (OPEN options)) = OPEN options then
        (let j = i + length (OPEN options) in
         if charAt unparsed j = Some (COMMENT options) then
           (case tagContents unparsed j (COMMENT options @ CLOSE options) of
              Inl e \<Rightarrow> Inl e
            | Inr (body, k) \<Rightarrow> parseLoop n options unparsed (nat (k + 1)) parsed)
         else if charAt unparsed j = Some (ESCAPE options) then
           (case tagContents unparsed (j + 1) (CLOSE options) of
              Inl e \<Rightarrow> Inl e
            | Inr (body, k) \<Rightarrow>
                parseLoop n options unparsed (nat (k + 1))
                  (parsed @ ''`,$xml('' @ body @ ''),`''))
         else if charAt unparsed j = Some (UNESCAPE options) then
           (case tagContents unparsed (j + 1) (CLOSE options) of
              Inl e \<Rightarrow> Inl e
            | Inr (body, k) \<Rightarrow>
                parseLoop n options unparsed (nat (k + 1))
                  (parsed @ ''`,('' @ body @ ''),`''))
         else if charAt unparsed j = Some (IMPORT options) then
           (case tagContents unparsed (j + 1) (CLOSE options) of
              Inl e \<Rightarrow> Inl e
            | Inr (body, k) \<Rightarrow>
                (let importContents = split (CHR ''|'') body;
                     templateName = trim (hd importContents);
                     locals = importLocals importContents
                 in case getTemplate n options templateName of
                      Inl e \<Rightarrow> Inl e
                    | Inr unparsedImport \<Rightarrow>
                        parseLoop n options unparsed (nat (k + 1))
                          (parsed @ ''`,`'' @ ''`);(function($buffer,$locals){''
                             @ unparsedImport @ ''})($buffer,'' @ locals
                             @ '');$buffer.push(`'')))
         else
           (case tagContents unparsed j (CLOSE options) of
              Inl e \<Rightarrow> Inl e
            | Inr (body, k) \<Rightarrow>
                parseLoop n options unparsed (nat (k + 1))
                  (parsed @ ''`);'' @ body @ '';$buffer.push(`'')))
      else if unparsed ! i = CHR 0x5C then
        parseLoop n options unparsed (i + 1) (parsed @ [CHR 0x5C, CHR 0x5C])
      else if unparsed ! i = CHR ''`'' then
        parseLoop n options unparsed (i + 1) (parsed @ [CHR 0x5C, CHR ''`''])
      else if unparsed ! i = CHR ''$'' then
        parseLoop n options unparsed (i + 1) (parsed @ [CHR 0x5C, CHR ''$''])
      else
        parseLoop n options unparsed (i + 1) (parsed @ [unparsed ! i]))"
| "parseTemplate n options unparsed =
     parseLoop n options unparsed 0 ''with($locals||{}){$buffer.push(`''"
| "getTemplate n options templateName =
     (if truthy (cache options) then Inl cacheError
      else (case loadFile options templateName of
              Inl e \<Rightarrow> Inl e
            | Inr unparsed \<Rightarrow> parseTemplate n options unparsed))"

text \<open>
  \<open>parseLoop\<close> is the \<open>for\<close> loop of \<open>parseTemplate\<close> with its two variables, the cursor
  \<open>i\<close> and the text \<open>parsed\<close>. The first argument bounds the number of loop iterations
  and of nested imports: the loop itself does not advance when the open and the close
  delimiter are both empty, and a template that imports itself is loaded again and again.
\<close>


datatype step = Finished string | Failed error | Continue nat string

definition loopBody ::
  "(string \<Rightarrow> error + string) \<Rightarrow> Options \<Rightarrow> string \<Rightarrow> nat \<Rightarrow> string \<Rightarrow> step"
where
  "loopBody load options unparsed i parsed =
     (if \<not> i < length unparsed then Finished (parsed @ ''`);}'')
      else if slice unparsed i (i + length (OPEN options)) = OPEN options then
        (let j = i + length (OPEN options) in
         if charAt unparsed j = Some (COMMENT options) then
           (case tagContents unparsed j (COMMENT options @ CLOSE options) of
              Inl e \<Rightarrow> Failed e
            | Inr (body, k) \<Rightarrow> Continue (nat (k + 1)) parsed)
         else if charAt unparsed j = Some (ESCAPE options) then
           (case tagContents unparsed (j + 1) (CLOSE options) of
              Inl e \<Rightarrow> Failed e
            | Inr (body, k) \<Rightarrow>
                Continue (nat (k + 1)) (parsed @ ''`,$xml('' @ body @ ''),`''))
         else if charAt unparsed j = Some (UNESCAPE options) then
           (case tagContents unparsed (j + 1) (CLOSE options) of
              Inl e \<Rightarrow> Failed e
            | Inr (body, k) \<Rightarrow>
                Continue (nat (k + 1)) (parsed @ ''`,('' @ body @ ''),`''))
         else if charAt unparsed j = Some (IMPORT options) then
           (case tagContents unparsed (j + 1) (CLOSE options) of
              Inl e \<Rightarrow> Failed e
            | Inr (body, k) \<Rightarrow>
                (let importContents = split (CHR ''|'') body;
                     templateName = trim (hd importContents);
                     locals = importLocals importContents
                 in case load templateName of
                      Inl e \<Rightarrow> Failed e
                    | Inr unparsedImport \<Rightarrow>
                        Continue (nat (k + 1))
                          (parsed @ ''`,`'' @ ''`);(function($buffer,$locals){''
                             @ unparsedImport @ ''})($buffer,'' @ locals
                             @ '');$buffer.push(`'')))
         else
           (case tagContents unparsed j (CLOSE options) of
              Inl e \<Rightarrow> Failed e
            | Inr (body, k) \<Rightarrow>
                Continue (nat (k + 1)) (parsed @ ''`);'' @ body @ '';$buffer.push(`'')))
      else if unparsed ! i = CHR 0x5C then
        Continue (i + 1) (parsed @ [CHR 0x5C, CHR 0x5C])
      else if unparsed ! i = CHR ''`'' then
        Continue (i + 1) (parsed @ [CHR 0x5C, CHR ''`''])
      else if unparsed ! i = CHR ''$'' then
        Continue (i + 1) (parsed @ [CHR 0x5C, CHR ''$''])
      else
        Continue (i + 1) (parsed @ [unparsed ! i]))"

text \<open>
  \<open>loopBody\<close> is one pass through the body of the \<open>for\<close> loop of \<open>parseTemplate\<close>,
  the \<open>++i\<close> included, taken by itself: the loop is over (\<open>Finished\<close>, with the text
  that \<open>parseTemplate\<close> returns), an exception leaves the loop (\<open>Failed\<close>), or the
  loop goes on with a new cursor and a new text (\<open>Continue\<close>). The argument \<open>load\<close>
  stands for the call \<open>getTemplate(options, templateName)\<close> of the import branch.
\<close>

fun scan :: "nat \<Rightarrow> nat \<Rightarrow> Options \<Rightarrow> string \<Rightarrow> nat \<Rightarrow> string \<Rightarrow> (nat \<times> string) option" where
  "scan 0 n options unparsed i parsed = Some (i, parsed)"
| "scan (Suc k) 0 options unparsed i parsed = None"
| "scan (Suc k) (Suc n) options unparsed i parsed =
     (case loopBody (getTemplate n options) options unparsed i parsed of
        Continue i' parsed' \<Rightarrow> scan k n options unparsed i' parsed'
      | _ \<Rightarrow> None)"

text \<open>
  \<open>scan k n options unparsed i parsed\<close> is the cursor and the text at which the loop
  of \<open>parseTemplate\<close> arrives after \<open>k\<close> passes, when it is started at the cursor \<open>i\<close>
  with the text \<open>parsed\<close> and the bound \<open>n\<close>; it is \<open>None\<close> when the loop ends or fails
  before.
\<close>

definition start :: string where
  "start = ''with($locals||{}){$buffer.push(`''"

definition tagAt :: "Options \<Rightarrow> string \<Rightarrow> nat \<Rightarrow> bool" where
  "tagAt options unparsed i \<longleftrightarrow>
     i < length unparsed \<and> slice unparsed i (i + length (OPEN options)) = OPEN options"

definition importTagAt :: "Options \<Rightarrow> string \<Rightarrow> nat \<Rightarrow> bool" where
  "importTagAt options unparsed i \<longleftrightarrow>
     tagAt options unparsed i
     \<and> charAt unparsed (i + length (OPEN options)) \<noteq> Some (COMMENT options)
     \<and> charAt unparsed (i + length (OPEN options)) \<noteq> Some (ESCAPE options)
     \<and> charAt unparsed (i + length (OPEN options)) \<noteq> Some (UNESCAPE options)
     \<and> charAt unparsed (i + length (OPEN options)) = Some (IMPORT options)
     \<and> indexOf unparsed (CLOSE options) (i + length (OPEN options) + 1) \<noteq> None"

definition importName :: "Options \<Rightarrow> string \<Rightarrow> nat \<Rightarrow> string" where
  "importName options unparsed i =
     (case tagContents unparsed (i + length (OPEN options) + 1) (CLOSE options) of
        Inl e \<Rightarrow> []
      | Inr (body, k) \<Rightarrow> trim (hd (split (CHR ''|'') body)))"

text \<open>
  \<open>start\<close> is the text with which \<open>parseTemplate\<close> begins. \<open>tagAt\<close> says that
  the cursor stands at an open delimiter, and \<open>importTagAt\<close> that the tag there is
  an import tag whose close delimiter occurs after it; \<open>importName\<close> is then the
  name of the template that the tag imports.
\<close>


section \<open>The fragment of JavaScript in which the generated text is run\<close>

text \<open>
  \<open>compileTemplate\<close> hands the generated text to the \<open>Function\<close> constructor, and the
  host parses and runs it. This section models that host for a fragment of JavaScript:
  the statements that \<open>parseTemplate\<close> emits, and, where a tag puts the template author's
  own text into the program, expressions built from identifiers, string, number and
  template literals without substitutions, \<open>null\<close>, object literals, \<open>||\<close>, assignment
  to an identifierName and calls of an identifierName. Every other program text is answered
  with \<^const>\<open>Unsupported\<close>.
\<close>

datatype expr =
    ETemplate string
  | EString string
  | ENumber nat
  | ENull
  | EIdent string
  | EObject "(string \<times> expr) list"
  | EAssign string expr
  | EOr expr expr
  | ECall string "expr list"

datatype stmt =
    SEmpty
  | SExpr expr
  | SPush "expr list"
  | SWith expr "stmt list"
  | SIife "stmt list" "expr list"

text \<open>
  \<open>SPush args\<close> is the statement \<open>$buffer.push(args);\<close> and \<open>SIife body args\<close> the
  statement \<open>(function($buffer,$locals){body})(args);\<close>.
\<close>

subsection \<open>Reading the program text\<close>

definition skipWs :: "string \<Rightarrow> string" where
  "skipWs s = dropWhile isWhiteSpace s"

definition stripPrefix :: "string \<Rightarrow> string \<Rightarrow> string option" where
  "stripPrefix p s = (if take (length p) s = p then Some (drop (length p) s) else None)"

definition isDigit :: "char \<Rightarrow> bool" where
  "isDigit c \<longleftrightarrow> c \<in> set ''0123456789''"

definition isIdStart :: "char \<Rightarrow> bool" where
  "isIdStart c \<longleftrightarrow>
     c \<in> set ''abcdefghijklmnopqrstuvwxyzABCDEFGHIJKLMNOPQRSTUVWXYZ_$''"

definition isIdPart :: "char \<Rightarrow> bool" where
  "isIdPart c \<longleftrightarrow> isIdStart c \<or> isDigit c"

definition continuesName :: "string \<Rightarrow> bool" where
  "continuesName r =
     (case r of [] \<Rightarrow> False | c # _ \<Rightarrow> c = CHR 0x5C \<or> 128 \<le> (of_char c :: nat))"

definition identifierName :: "string \<Rightarrow> (string \<times> string) option" where
  "identifierName s =
     (case s of
        [] \<Rightarrow> None
      | c # cs \<Rightarrow>
          (if isIdStart c \<and> \<not> continuesName (dropWhile isIdPart cs)
           then Some (c # takeWhile isIdPart cs, dropWhile isIdPart cs)
           else None))"

text \<open>
  An identifierName is read only when it is made of ASCII letters, digits, \<open>_\<close> and \<open>$\<close> and
  is not followed by a character that could continue it (a letter outside ASCII or a
  unicode escape).
\<close>

definition reserved :: "string list" where
  "reserved =
     [''break'', ''case'', ''catch'', ''class'', ''const'', ''continue'', ''debugger'',
      ''default'', ''delete'', ''do'', ''else'', ''enum'', ''export'', ''extends'',
      ''false'', ''finally'', ''for'', ''function'', ''if'', ''import'', ''in'',
      ''instanceof'', ''new'', ''null'', ''return'', ''super'', ''switch'', ''this'',
      ''throw'', ''true'', ''try'', ''typeof'', ''var'', ''void'', ''while'', ''with'',
      ''yield'', ''let'', ''static'', ''implements'', ''interface'', ''package'',
      ''private'', ''protected'', ''public'', ''await'', ''async'', ''of'', ''get'',
      ''set'', ''arguments'', ''eval'']"

fun templateChars :: "string \<Rightarrow> (string \<times> string) option" where
  "templateChars [] = None"
| "templateChars [c] = (if c = CHR ''`'' then Some ([], []) else None)"
| "templateChars (c # d # cs) =
     (if c = CHR ''`'' then Some ([], d # cs)
      else if c = CHR 0x5C then
        (if d = CHR 0x5C \<or> d = CHR ''`'' \<or> d = CHR ''$''
         then map_option (\<lambda>(t, r). (d # t, r)) (templateChars cs)
         else None)
      else if c = CHR ''$'' \<and> d = CHR ''{'' then None
      else if c = CHR 0x0D \<and> d = CHR 0x0A then
        map_option (\<lambda>(t, r). (CHR 0x0A # t, r)) (templateChars cs)
      else if c = CHR 0x0D then
        map_option (\<lambda>(t, r). (CHR 0x0A # t, r)) (templateChars (d # cs))
      else map_option (\<lambda>(t, r). (c # t, r)) (templateChars (d # cs)))"

text \<open>
  \<open>templateChars s\<close> reads a template literal whose opening backtick has been consumed
  and returns its value and the text after the closing backtick. Of the escape
  sequences it knows the three that \<open>parseTemplate\<close> writes; a substitution \<open>${\<close> or
  another escape is not read. As ECMAScript defines the value of a template (the
  template value of a line terminator sequence), a carriage return, alone or followed
  by a line feed, contributes one line feed.
\<close>

definition stringLiteral :: "char \<Rightarrow> string \<Rightarrow> (string \<times> string) option" where
  "stringLiteral q cs =
     (let body = takeWhile (\<lambda>c. c \<noteq> q) cs; r = dropWhile (\<lambda>c. c \<noteq> q) cs
      in if r = [] \<or> CHR 0x5C \<in> set body \<or> CHR 0x0A \<in> set body \<or> CHR 0x0D \<in> set body
         then None else Some (body, tl r))"

definition digitValue :: "char \<Rightarrow> nat" where
  "digitValue c = (of_char c :: nat) - 48"

definition numberLiteral :: "string \<Rightarrow> (nat \<times> string) option" where
  "numberLiteral s =
     (let ds = takeWhile isDigit s; r = dropWhile isDigit s;
          v = foldl (\<lambda>a c. 10 * a + digitValue c) 0 ds
      in if ds = [] \<or> (1 < length ds \<and> hd ds = CHR ''0'') \<or> 15 < length ds
         then None else Some (v, r))"

text \<open>
  A number literal is read when it is a decimal integer of at most fifteen digits,
  which every JavaScript number represents exactly.
\<close>

definition isAssignOp :: "string \<Rightarrow> bool" where
  "isAssignOp r =
     (case r of
        [] \<Rightarrow> False
      | c # cs \<Rightarrow>
          c = CHR ''='' \<and> (case cs of [] \<Rightarrow> True | d # _ \<Rightarrow> d \<noteq> CHR ''='' \<and> d \<noteq> CHR ''>''))"

fun parseExpr :: "nat \<Rightarrow> string \<Rightarrow> error + expr \<times> string"
and parseOr :: "nat \<Rightarrow> string \<Rightarrow> error + expr \<times> string"
and parsePrimary :: "nat \<Rightarrow> string \<Rightarrow> error + expr \<times> string"
and parseArgs :: "nat \<Rightarrow> string \<Rightarrow> error + expr list \<times> string"
and parseProps :: "nat \<Rightarrow> string \<Rightarrow> error + (string \<times> expr) list \<times> string"
where
  "parseExpr 0 s = Inl OutOfFuel"
| "parseExpr (Suc n) s =
     (case identifierName (skipWs s) of
        None \<Rightarrow> parseOr n s
      | Some (x, r) \<Rightarrow>
          (if isAssignOp (skipWs r) then
             (if x \<in> set reserved then Inl Unsupported
              else (case parseExpr n (tl (skipWs r)) of
                      Inl e \<Rightarrow> Inl e
                    | Inr (e, r') \<Rightarrow> Inr (EAssign x e, r')))
           else parseOr n s))"
| "parseOr 0 s = Inl OutOfFuel"
| "parseOr (Suc n) s =
     (case parsePrimary n s of
        Inl e \<Rightarrow> Inl e
      | Inr (a, r) \<Rightarrow>
          (case stripPrefix ''||'' (skipWs r) of
             None \<Rightarrow> Inr (a, r)
           | Some r' \<Rightarrow>
               (if stripPrefix ''='' r' \<noteq> None then Inl Unsupported
                else (case parseOr n r' of
                        Inl e \<Rightarrow> Inl e
                      | Inr (b, r'') \<Rightarrow> Inr (EOr a b, r'')))))"
| "parsePrimary 0 s = Inl OutOfFuel"
| "parsePrimary (Suc n) s =
     (case skipWs s of
        [] \<Rightarrow> Inl Unsupported
      | c # cs \<Rightarrow>
          (if c = CHR ''`'' then
             (case templateChars cs of
                None \<Rightarrow> Inl Unsupported
              | Some (t, r) \<Rightarrow> Inr (ETemplate t, r))
           else if c = CHR 0x22 \<or> c = CHR 0x27 then
             (case stringLiteral c cs of
                None \<Rightarrow> Inl Unsupported
              | Some (t, r) \<Rightarrow> Inr (EString t, r))
           else if isDigit c then
             (case numberLiteral (c # cs) of
                None \<Rightarrow> Inl Unsupported
              | Some (v, r) \<Rightarrow> Inr (ENumber v, r))
           else if c = CHR ''('' then
             (case parseExpr n cs of
                Inl e \<Rightarrow> Inl e
              | Inr (e, r) \<Rightarrow>
                  (case stripPrefix '')'' (skipWs r) of
                     None \<Rightarrow> Inl Unsupported
                   | Some r' \<Rightarrow> Inr (e, r')))
           else if c = CHR ''{'' then
             (case parseProps n cs of
                Inl e \<Rightarrow> Inl e
              | Inr (ps, r) \<Rightarrow> Inr (EObject ps, r))
           else
             (case identifierName (c # cs) of
                None \<Rightarrow> Inl Unsupported
              | Some (x, r) \<Rightarrow>
                  (if x = ''null'' then Inr (ENull, r)
                   else if x \<in> set reserved then Inl Unsupported
                   else (case stripPrefix ''('' (skipWs r) of
                           None \<Rightarrow> Inr (EIdent x, r)
                         | Some r' \<Rightarrow>
                             (case parseArgs n r' of
                                Inl e \<Rightarrow> Inl e
                              | Inr (as, r'') \<Rightarrow> Inr (ECall x as, r'')))))))"
| "parseArgs 0 s = Inl OutOfFuel"
| "parseArgs (Suc n) s =
     (case stripPrefix '')'' (skipWs s) of
        Some r \<Rightarrow> Inr ([], r)
      | None \<Rightarrow>
          (case parseExpr n s of
             Inl e \<Rightarrow> Inl e
           | Inr (a, r) \<Rightarrow>
               (case stripPrefix '','' (skipWs r) of
                  Some r' \<Rightarrow>
                    (case parseArgs n r' of
                       Inl e \<Rightarrow> Inl e
                     | Inr (as, r'') \<Rightarrow> Inr (a # as, r''))
                | None \<Rightarrow>
                    (case stripPrefix '')'' (skipWs r) of
                       Some r' \<Rightarrow> Inr ([a], r')
                     | None \<Rightarrow> Inl Unsupported))))"
| "parseProps 0 s = Inl OutOfFuel"
| "parseProps (Suc n) s =
     (case stripPrefix ''}'' (skipWs s) of
        Some r \<Rightarrow> Inr ([], r)
      | None \<Rightarrow>
          (case identifierName (skipWs s) of
             None \<Rightarrow> Inl Unsupported
           | Some (k, r) \<Rightarrow>
               (if k = ''__proto__'' then Inl Unsupported
                else (case stripPrefix '':'' (skipWs r) of
                        None \<Rightarrow> Inl Unsupported
                      | Some r' \<Rightarrow>
                          (case parseExpr n r' of
                             Inl e \<Rightarrow> Inl e
                           | Inr (v, r'') \<Rightarrow>
                               (case stripPrefix '','' (skipWs r'') of
                                  Some r3 \<Rightarrow>
                                    (case parseProps n r3 of
                                       Inl e \<Rightarrow> Inl e
                                     | Inr (ps, r4) \<Rightarrow> Inr ((k, v) # ps, r4))
                                | None \<Rightarrow>
                                    (case stripPrefix ''}'' (skipWs r'') of
                                       Some r3 \<Rightarrow> Inr ([(k, v)], r3)
                                     | None \<Rightarrow> Inl Unsupported)))))))"


fun parseStmt :: "nat \<Rightarrow> string \<Rightarrow> error + stmt \<times> string"
and parseStmts :: "nat \<Rightarrow> string \<Rightarrow> error + stmt list \<times> string"
where
  "parseStmt 0 s = Inl OutOfFuel"
| "parseStmt (Suc n) s =
     (if stripPrefix '';'' s \<noteq> None then Inr (SEmpty, tl s)
      else if stripPrefix ''$buffer.push('' s \<noteq> None then
        (case parseArgs (length s) (drop 13 s) of
           Inl e \<Rightarrow> Inl e
         | Inr (as, r) \<Rightarrow>
             (case stripPrefix '';'' (skipWs r) of
                None \<Rightarrow> Inl Unsupported
              | Some r' \<Rightarrow> Inr (SPush as, r')))
      else if stripPrefix ''(function($buffer,$locals){'' s \<noteq> None then
        (case parseStmts n (drop 27 s) of
           Inl e \<Rightarrow> Inl e
         | Inr (body, r) \<Rightarrow>
             (case stripPrefix ''})('' r of
                None \<Rightarrow> Inl Unsupported
              | Some r' \<Rightarrow>
                  (case parseArgs (length s) r' of
                     Inl e \<Rightarrow> Inl e
                   | Inr (as, r'') \<Rightarrow>
                       (case stripPrefix '';'' (skipWs r'') of
                          None \<Rightarrow> Inl Unsupported
                        | Some r3 \<Rightarrow> Inr (SIife body as, r3)))))
      else if stripPrefix ''with('' s \<noteq> None then
        (case parseExpr (length s) (drop 5 s) of
           Inl e \<Rightarrow> Inl e
         | Inr (e, r) \<Rightarrow>
             (case stripPrefix '')'' (skipWs r) of
                None \<Rightarrow> Inl Unsupported
              | Some r' \<Rightarrow>
                  (case stripPrefix ''{'' (skipWs r') of
                     None \<Rightarrow> Inl Unsupported
                   | Some r'' \<Rightarrow>
                       (case parseStmts n r'' of
                          Inl e \<Rightarrow> Inl e
                        | Inr (body, r3) \<Rightarrow>
                            (case stripPrefix ''}'' r3 of
                               None \<Rightarrow> Inl Unsupported
                             | Some r4 \<Rightarrow> Inr (SWith e body, r4))))))
      else if stripPrefix ''{'' s \<noteq> None then Inl Unsupported
      else
        (case parseExpr (length s) s of
           Inl e \<Rightarrow> Inl e
         | Inr (e, r) \<Rightarrow>
             (case stripPrefix '';'' (skipWs r) of
                None \<Rightarrow> Inl Unsupported
              | Some r' \<Rightarrow> Inr (SExpr e, r'))))"
| "parseStmts 0 s = Inl OutOfFuel"
| "parseStmts (Suc n) s =
     (if skipWs s = [] \<or> stripPrefix ''}'' (skipWs s) \<noteq> None
         \<or> stripPrefix ''return'' (skipWs s) \<noteq> None
      then Inr ([], skipWs s)
      else (case parseStmt n (skipWs s) of
              Inl e \<Rightarrow> Inl e
            | Inr (st, r) \<Rightarrow>
                (case parseStmts n r of
                   Inl e \<Rightarrow> Inl e
                 | Inr (sts, r') \<Rightarrow> Inr (st # sts, r'))))"

text \<open>
  A statement list ends before a closing brace, before \<open>return\<close> and at the end of the
  text. The numeric arguments bound the nesting of the recursive descent; they are
  taken from the length of the text, which no nesting can exceed.
\<close>

definition newFunction :: "string \<Rightarrow> error + stmt list" where
  "newFunction body =
     (case stripPrefix ''var $buffer=[];'' body of
        None \<Rightarrow> Inl Unsupported
      | Some r \<Rightarrow>
          (case parseStmts (length body) r of
             Inl e \<Rightarrow> Inl e
           | Inr (prog, r') \<Rightarrow>
               (if r' = ''return $buffer.join(``);'' then Inr prog else Inl Unsupported)))"

text \<open>
  \<open>newFunction body\<close> is \<open>new Function("$xml", "$locals", body)\<close>: a body must consist
  of \<open>var $buffer=[];\<close>, statements of the fragment and \<open>return $buffer.join(``);\<close>. The
  result is the list of the statements in between.
\<close>

subsection \<open>Running the program\<close>

record state =
  heap :: "(string \<times> jsval) list list"
  globals :: "(string \<times> jsval) list"
  buffer :: "jsval list"

text \<open>
  \<open>heap\<close> holds the plain objects, each a list of its own properties; \<open>Ref r\<close> refers
  to the object at index \<open>r\<close>. \<open>globals\<close> are the data properties of the global object
  that template code has created or that the caller has put there; the model takes the
  global object to hold nothing else but \<open>undefined\<close>. \<open>buffer\<close> is the content of the
  array \<open>$buffer\<close> of the render call in progress.
\<close>

datatype frame = FWith nat | FFun "(string \<times> jsval) list"

text \<open>
  A scope chain is a list of frames, innermost first: \<open>FWith r\<close> is the object
  environment of a \<open>with\<close> statement over the object at \<open>r\<close>, and \<open>FFun bs\<close> holds the
  parameters and variables of a function.
\<close>

definition objectPrototypeNames :: "string list" where
  "objectPrototypeNames =
     [''constructor'', ''hasOwnProperty'', ''isPrototypeOf'', ''propertyIsEnumerable'',
      ''toLocaleString'', ''toString'', ''valueOf'', ''__proto__'', ''__defineGetter__'',
      ''__defineSetter__'', ''__lookupGetter__'', ''__lookupSetter__'']"

definition hostGlobalNames :: "string list" where
  "hostGlobalNames =
     [''NaN'', ''Infinity'', ''globalThis'', ''Object'', ''Function'', ''Array'', ''String'',
      ''Number'', ''Boolean'', ''Symbol'', ''BigInt'', ''Math'', ''JSON'', ''Date'', ''RegExp'',
      ''Error'', ''TypeError'', ''RangeError'', ''SyntaxError'', ''ReferenceError'',
      ''EvalError'', ''URIError'', ''Promise'', ''Proxy'', ''Reflect'', ''Map'', ''Set'',
      ''WeakMap'', ''WeakSet'', ''ArrayBuffer'', ''DataView'', ''Intl'', ''isNaN'',
      ''isFinite'', ''parseInt'', ''parseFloat'', ''encodeURI'', ''encodeURIComponent'',
      ''decodeURI'', ''decodeURIComponent'', ''escape'', ''unescape'', ''console'',
      ''process'', ''global'', ''Buffer'', ''require'', ''module'', ''setTimeout'',
      ''setInterval'', ''setImmediate'', ''clearTimeout'', ''clearInterval'',
      ''clearImmediate'', ''queueMicrotask'']"

fun lookup :: "frame list \<Rightarrow> state \<Rightarrow> string \<Rightarrow> error + jsval" where
  "lookup [] st x =
     (if x = ''undefined'' then Inr Undefined
      else if x \<in> set hostGlobalNames then Inl Unsupported
      else (case map_of (globals st) x of
              Some v \<Rightarrow> Inr v
            | None \<Rightarrow> Inl (ReferenceError x)))"
| "lookup (FFun bs # sc) st x =
     (case map_of bs x of Some v \<Rightarrow> Inr v | None \<Rightarrow> lookup sc st x)"
| "lookup (FWith r # sc) st x =
     (if \<not> r < length (heap st) then Inl Unsupported
      else (case map_of (heap st ! r) x of
              Some v \<Rightarrow> Inr v
            | None \<Rightarrow>
                (if x \<in> set objectPrototypeNames then Inl Unsupported
                 else lookup sc st x)))"

fun putProp :: "string \<Rightarrow> jsval \<Rightarrow> (string \<times> jsval) list \<Rightarrow> (string \<times> jsval) list" where
  "putProp x v [] = [(x, v)]"
| "putProp x v ((k, w) # ps) = (if k = x then (k, v) # ps else (k, w) # putProp x v ps)"

fun assign :: "frame list \<Rightarrow> string \<Rightarrow> jsval \<Rightarrow> state \<Rightarrow> error + state" where
  "assign [] x v st =
     (if x = ''undefined'' then Inr st
      else if x \<in> set hostGlobalNames then Inl Unsupported
      else Inr (st\<lparr>globals := putProp x v (globals st)\<rparr>))"
| "assign (FFun bs # sc) x v st =
     (if map_of bs x \<noteq> None then Inl Unsupported else assign sc x v st)"
| "assign (FWith r # sc) x v st =
     (if \<not> r < length (heap st) then Inl Unsupported
      else if map_of (heap st ! r) x \<noteq> None
        then Inr (st\<lparr>heap := (heap st)[r := putProp x v (heap st ! r)]\<rparr>)
      else if x \<in> set objectPrototypeNames then Inl Unsupported
      else assign sc x v st)"

text \<open>
  \<open>assign sc x v\<close> is \<open>x = v\<close> in sloppy mode: the value goes to the innermost \<open>with\<close>
  object that has the property, and to the global object when no frame binds \<open>x\<close>.
  Assigning to a parameter of a function is not modelled.
\<close>

fun eval :: "frame list \<Rightarrow> expr \<Rightarrow> state \<Rightarrow> error + jsval \<times> state"
and evals :: "frame list \<Rightarrow> expr list \<Rightarrow> state \<Rightarrow> error + jsval list \<times> state"
and evalProps ::
  "frame list \<Rightarrow> (string \<times> expr) list \<Rightarrow> state \<Rightarrow> error + (string \<times> jsval) list \<times> state"
where
  "eval sc (ETemplate s) st = Inr (Str s, st)"
| "eval sc (EString s) st = Inr (Str s, st)"
| "eval sc (ENumber n) st = Inr (Num n, st)"
| "eval sc ENull st = Inr (Null, st)"
| "eval sc (EIdent x) st =
     (case lookup sc st x of Inl e \<Rightarrow> Inl e | Inr v \<Rightarrow> Inr (v, st))"
| "eval sc (EObject ps) st =
     (case evalProps sc ps st of
        Inl e \<Rightarrow> Inl e
      | Inr (obj, st') \<Rightarrow> Inr (Ref (length (heap st')), st'\<lparr>heap := heap st' @ [obj]\<rparr>))"
| "eval sc (EAssign x e) st =
     (case eval sc e st of
        Inl err \<Rightarrow> Inl err
      | Inr (v, st') \<Rightarrow>
          (if v = VBuf then Inl Unsupported
           else (case assign sc x v st' of
                   Inl err \<Rightarrow> Inl err
                 | Inr st'' \<Rightarrow> Inr (v, st''))))"
| "eval sc (EOr a b) st =
     (case eval sc a st of
        Inl err \<Rightarrow> Inl err
      | Inr (v, st') \<Rightarrow> (if truthy v then Inr (v, st') else eval sc b st'))"
| "eval sc (ECall f as) st =
     (case lookup sc st f of
        Inl err \<Rightarrow> Inl err
      | Inr fv \<Rightarrow>
          (case evals sc as st of
             Inl err \<Rightarrow> Inl err
           | Inr (vs, st') \<Rightarrow>
               (if fv = VEsc then
                  (case escape (case vs of [] \<Rightarrow> Undefined | v # _ \<Rightarrow> v) of
                     Inl err \<Rightarrow> Inl err
                   | Inr s \<Rightarrow> Inr (Str s, st'))
                else Inl TypeError)))"
| "evals sc [] st = Inr ([], st)"
| "evals sc (e # es) st =
     (case eval sc e st of
        Inl err \<Rightarrow> Inl err
      | Inr (v, st') \<Rightarrow>
          (case evals sc es st' of
             Inl err \<Rightarrow> Inl err
           | Inr (vs, st'') \<Rightarrow> Inr (v # vs, st'')))"
| "evalProps sc [] st = Inr ([], st)"
| "evalProps sc (p # ps) st =
     (case eval sc (snd p) st of
        Inl err \<Rightarrow> Inl err
      | Inr (v, st') \<Rightarrow>
          (if v = VBuf then Inl Unsupported
           else (case evalProps sc ps st' of
                   Inl err \<Rightarrow> Inl err
                 | Inr (obj, st'') \<Rightarrow>
                     Inr (if map_of obj (fst p) \<noteq> None then obj else (fst p, v) # obj,
                          st''))))"

text \<open>
  In an object literal that names a property twice the later value stays. The order of
  the properties of an object is not observed by any construct of the fragment.
\<close>

definition argument :: "jsval list \<Rightarrow> nat \<Rightarrow> jsval" where
  "argument vs i = (if i < length vs then vs ! i else Undefined)"

fun exec :: "frame list \<Rightarrow> stmt \<Rightarrow> state \<Rightarrow> error + state"
and execs :: "frame list \<Rightarrow> stmt list \<Rightarrow> state \<Rightarrow> error + state"
where
  "exec sc SEmpty st = Inr st"
| "exec sc (SExpr e) st =
     (case eval sc e st of Inl err \<Rightarrow> Inl err | Inr (v, st') \<Rightarrow> Inr st')"
| "exec sc (SPush as) st =
     (case lookup sc st ''$buffer'' of
        Inl err \<Rightarrow> Inl err
      | Inr b \<Rightarrow>
          (if b = Undefined \<or> b = Null then Inl TypeError
           else (case evals sc as st of
                   Inl err \<Rightarrow> Inl err
                 | Inr (vs, st') \<Rightarrow>
                     (if b = VBuf then Inr (st'\<lparr>buffer := buffer st' @ vs\<rparr>)
                      else Inl TypeError))))"
| "exec sc (SWith e body) st =
     (case eval sc e st of
        Inl err \<Rightarrow> Inl err
      | Inr (v, st') \<Rightarrow>
          (case v of
             Ref r \<Rightarrow> execs (FWith r # sc) body st'
           | Undefined \<Rightarrow> Inl TypeError
           | Null \<Rightarrow> Inl TypeError
           | _ \<Rightarrow> Inl Unsupported))"
| "exec sc (SIife body as) st =
     (case evals sc as st of
        Inl err \<Rightarrow> Inl err
      | Inr (vs, st') \<Rightarrow>
          execs (FFun [(''$buffer'', argument vs 0), (''$locals'', argument vs 1)] # sc)
            body st')"
| "execs sc [] st = Inr st"
| "execs sc (s # ss) st =
     (case exec sc s st of Inl err \<Rightarrow> Inl err | Inr st' \<Rightarrow> execs sc ss st')"

fun join :: "jsval list \<Rightarrow> error + string" where
  "join [] = Inr []"
| "join (v # vs) =
     (case (if v = Undefined \<or> v = Null then Inr [] else String v) of
        Inl err \<Rightarrow> Inl err
      | Inr s \<Rightarrow> (case join vs of Inl err \<Rightarrow> Inl err | Inr t \<Rightarrow> Inr (s @ t)))"

text \<open>
  \<open>join vs\<close> is \<open>vs.join(``)\<close>: an element that is \<open>undefined\<close> or \<open>null\<close> contributes
  the empty string, every other element its string conversion.
\<close>

definition render :: "stmt list \<Rightarrow> jsval \<Rightarrow> state \<Rightarrow> error + string \<times> state" where
  "render prog locals st =
     (case execs [FFun [(''$xml'', VEsc), (''$locals'', locals), (''$buffer'', VBuf)]] prog
             (st\<lparr>buffer := []\<rparr>) of
        Inl err \<Rightarrow> Inl err
      | Inr st' \<Rightarrow>
          (case join (buffer st') of
             Inl err \<Rightarrow> Inl err
           | Inr out \<Rightarrow> Inr (out, st')))"

text \<open>
  \<open>render prog locals st\<close> is one call of the function that \<open>compileTemplate\<close> returns:
  \<open>$xml\<close> is bound to \<^const>\<open>escape\<close>, \<open>$locals\<close> to the argument and \<open>$buffer\<close> to a
  new array. The result is the joined buffer and the state the call leaves behind.
\<close>


section \<open>Compiling\<close>

definition wrap :: "string \<Rightarrow> string" where
  "wrap parsed =
     ''var $buffer=[];(function($buffer,$locals){'' @ parsed
       @ ''})($buffer,$locals);return $buffer.join(``);''"

definition compileTemplate ::
  "nat \<Rightarrow> (string \<Rightarrow> string \<Rightarrow> error + string) \<Rightarrow> PartialOptions option \<Rightarrow> string
     \<Rightarrow> error + stmt list"
where
  "compileTemplate n readFile options unparsed =
     (case parseTemplate n (handleOptions readFile options) unparsed of
        Inl e \<Rightarrow> Inl e
      | Inr parsed \<Rightarrow> newFunction (wrap parsed))"



section \<open>Notions used to state the properties\<close>

definition literalChar :: "char \<Rightarrow> string" where
  "literalChar c =
     (if c = CHR 0x5C \<or> c = CHR ''`'' \<or> c = CHR ''$'' then [CHR 0x5C, c] else [c])"

text \<open>
  \<open>literalChar c\<close> is what the last four branches of the loop of \<open>parseTemplate\<close>
  append for a character \<open>c\<close> outside a tag.
\<close>

definition closeMarker :: "Options \<Rightarrow> string \<Rightarrow> nat \<Rightarrow> string" where
  "closeMarker options unparsed j =
     (if charAt unparsed j = Some (COMMENT options) then COMMENT options @ CLOSE options
      else CLOSE options)"

definition bodyStart :: "Options \<Rightarrow> string \<Rightarrow> nat \<Rightarrow> nat" where
  "bodyStart options unparsed j =
     (if charAt unparsed j = Some (COMMENT options) then j
      else if charAt unparsed j = Some (ESCAPE options)
              \<or> charAt unparsed j = Some (UNESCAPE options)
              \<or> charAt unparsed j = Some (IMPORT options) then j + 1
      else j)"

text \<open>
  For a tag whose open delimiter ends just before index \<open>j\<close>, \<open>closeMarker\<close> is the
  argument that the \<open>switch\<close> of \<open>parseTemplate\<close> passes to \<open>tagContents\<close> and
  \<open>bodyStart\<close> the value of the cursor at that call.
\<close>

definition noFiles :: "string \<Rightarrow> string \<Rightarrow> error + string" where
  "noFiles b f = Inl (Error ''ENOENT'')"

definition templatesLoader :: "(string \<times> string) list \<Rightarrow> string \<Rightarrow> error + string" where
  "templatesLoader templates templateName =
     (case map_of templates templateName of
        None \<Rightarrow> Inl TypeError
      | Some t \<Rightarrow> Inr t)"

text \<open>
  \<open>templatesLoader\<close> is the loader of the test suite, \<open>TEMPLATES[templateName]\<close>, for a
  table of templates. For a name that is not in the table the test loader resolves
  to \<open>undefined\<close>, and \<open>parseTemplate\<close> throws a \<open>TypeError\<close> on reading its length.
\<close>

definition optionsWith :: "(string \<times> string) list \<Rightarrow> PartialOptions" where
  "optionsWith templates =
     \<lparr>base_opt = None, ext_opt = None, delimiters_opt = None, escape_opt = None,
      loadFile_opt = Some (templatesLoader templates), cache_opt = None,
      minify_opt = None\<rparr>"

definition OPTIONS :: PartialOptions where
  "OPTIONS = optionsWith [(''world'', ''World'')]"

definition emptyState :: state where
  "emptyState = \<lparr>heap = [], globals = [], buffer = []\<rparr>"

definition outcome :: "error + 'a \<times> state \<Rightarrow> error + 'a" where
  "outcome r = (case r of Inl e \<Rightarrow> Inl e | Inr (v, st) \<Rightarrow> Inr v)"

text \<open>\<open>outcome r\<close> is the result \<open>r\<close> without the store: the error, or the value.\<close>

definition compileAndRender ::
  "nat \<Rightarrow> PartialOptions option \<Rightarrow> string \<Rightarrow> jsval \<Rightarrow> state \<Rightarrow> error + string \<times> state"
where
  "compileAndRender n options unparsed locals st =
     (case compileTemplate n noFiles options unparsed of
        Inl e \<Rightarrow> Inl e
      | Inr template \<Rightarrow> render template locals st)"

text \<open>
  \<open>compileAndRender\<close> is what the tests do: \<open>(await compileTemplate(unparsed,
  options))(locals)\<close>.
\<close>

definition sameDelimiters :: PartialDelimiterOptions where
  "sameDelimiters =
     \<lparr>p_open = Some ''%'', p_close = Some ''%'', p_escape = None, p_unescape = None,
      p_import = None, p_comment = None\<rparr>"

definition sameDelimiterOptions :: PartialOptions where
  "sameDelimiterOptions =
     \<lparr>base_opt = None, ext_opt = None, delimiters_opt = Some sameDelimiters,
      escape_opt = None, loadFile_opt = None, cache_opt = None, minify_opt = None\<rparr>"


text \<open>
  \<open>sameDelimiterOptions\<close> asks for \<open>%\<close> as both the open and the close delimiter.
  \<open>cachedOptions\<close> are the options of the test suite with an object as the cache.
\<close>

fun lineFeeds :: "string \<Rightarrow> string" where
  "lineFeeds [] = []"
| "lineFeeds [c] = (if c = CHR 0x0D then [CHR 0x0A] else [c])"
| "lineFeeds (c # d # cs) =
     (if c = CHR 0x0D \<and> d = CHR 0x0A then CHR 0x0A # lineFeeds cs
      else if c = CHR 0x0D then CHR 0x0A # lineFeeds (d # cs)
      else c # lineFeeds (d # cs))"

text \<open>
  \<open>lineFeeds s\<close> is \<open>s\<close> with every carriage return, and every carriage return
  followed by a line feed, replaced by one line feed.
\<close>

definition literalProgram :: "string \<Rightarrow> stmt list" where
  "literalProgram t =
     [SIife [SWith (EOr (EIdent ''$locals'') (EObject [])) [SPush [ETemplate t]]]
        [EIdent ''$buffer'', EIdent ''$locals'']]"

text \<open>
  \<open>literalProgram t\<close> is the compiled form of a template that is one literal: a single
  push of the text \<open>t\<close>.
\<close>

definition plainLocals :: "jsval \<Rightarrow> state \<Rightarrow> bool" where
  "plainLocals locals st =
     (case locals of
        Ref r \<Rightarrow> r < length (heap st) \<and> map_of (heap st ! r) ''$buffer'' = None
      | _ \<Rightarrow> \<not> truthy locals)"

text \<open>
  \<open>plainLocals locals st\<close> holds of the locals that a render call is normally given:
  nothing (\<open>undefined\<close>, or another falsy value), or an object of the heap that has no
  property named \<open>$buffer\<close>. An object with such a property would hide the output
  buffer from the code inside the \<open>with\<close> statement.
\<close>

definition htmlEntity :: "char \<Rightarrow> string" where
  "htmlEntity c =
     (case map_of [(CHR ''<'', ''&lt;''), (CHR ''>'', ''&gt;''), (CHR ''&'', ''&amp;''),
                   (CHR 0x27, ''&apos;''), (CHR 0x22, ''&quot;'')] c of
        None \<Rightarrow> [c]
      | Some e \<Rightarrow> e)"

text \<open>
  \<open>htmlEntity\<close> is the table of the five characters and their named entities, as the
  specification gives it; every other character stands for itself.
\<close>

definition localsState :: "(string \<times> jsval) list \<Rightarrow> state" where
  "localsState properties = \<lparr>heap = [properties], globals = [], buffer = []\<rparr>"









text \<open>
  \<open>evalPure\<close>, \<open>pushedBy\<close> and \<open>pushedByAll\<close> are the evaluator restricted to
  expressions and statements without assignment, as functions of the bindings in
  scope alone. They are used to show that such code reads the store and does not
  change it.
\<close>


section \<open>Properties\<close>

subsection \<open>Searching in strings\<close>


lemma find_sub_tail: "find_sub pat (x # xs) = None \<Longrightarrow> find_sub pat xs = None"
  by (auto split: if_splits)

lemma find_sub_drop: "find_sub pat s = None \<Longrightarrow> find_sub pat (drop k s) = None"
proof (induction k arbitrary: s)
  case 0 then show ?case by simp
next
  case (Suc k)
  then show ?case by (cases s) (auto split: if_splits)
qed

lemma find_sub_Some_take:
  "find_sub pat s = Some k \<Longrightarrow> take (length pat) (drop k s) = pat \<and> k \<le> length s"
proof (induction s arbitrary: k)
  case Nil then show ?case by (auto split: if_splits)
next
  case (Cons x xs)
  show ?case
  proof (cases "take (length pat) (x # xs) = pat")
    case True with Cons.prems show ?thesis by simp
  next
    case False
    with Cons.prems obtain k' where k': "find_sub pat xs = Some k'" "k = Suc k'" by auto
    from Cons.IH[OF k'(1)] k'(2) show ?thesis by simp
  qed
qed

lemma find_sub_None_iff:
  "find_sub pat s = None \<longleftrightarrow> (\<forall>k\<le>length s. take (length pat) (drop k s) \<noteq> pat)"
proof (induction s)
  case Nil then show ?case by auto
next
  case (Cons x xs)
  show ?case
  proof
    assume a: "find_sub pat (x # xs) = None"
    then have 1: "take (length pat) (x # xs) \<noteq> pat" and 2: "find_sub pat xs = None"
      by (auto split: if_splits)
    show "\<forall>k\<le>length (x # xs). take (length pat) (drop k (x # xs)) \<noteq> pat"
    proof (intro allI impI)
      fix k assume "k \<le> length (x # xs)"
      show "take (length pat) (drop k (x # xs)) \<noteq> pat"
      proof (cases k)
        case 0 then show ?thesis using 1 by simp
      next
        case (Suc k')
        then show ?thesis using 2 Cons.IH \<open>k \<le> length (x # xs)\<close> by auto
      qed
    qed
  next
    assume a: "\<forall>k\<le>length (x # xs). take (length pat) (drop k (x # xs)) \<noteq> pat"
    then have 1: "take (length pat) (x # xs) \<noteq> pat" by (metis drop0 le0)
    have "\<forall>k\<le>length xs. take (length pat) (drop k xs) \<noteq> pat"
    proof (intro allI impI)
      fix k assume "k \<le> length xs"
      then have "Suc k \<le> length (x # xs)" by simp
      with a have "take (length pat) (drop (Suc k) (x # xs)) \<noteq> pat" by blast
      then show "take (length pat) (drop k xs) \<noteq> pat" by simp
    qed
    with Cons.IH have "find_sub pat xs = None" by simp
    with 1 show "find_sub pat (x # xs) = None" by simp
  qed
qed

lemma find_sub_longer: "find_sub pat s = None \<Longrightarrow> find_sub (c # pat) s = None"
proof -
  assume a: "find_sub pat s = None"
  { fix k assume k: "k \<le> length s" and e: "take (length (c # pat)) (drop k s) = c # pat"
    then have "drop k s \<noteq> []" by auto
    then have lt: "k < length s" by simp
    from e have "take (length pat) (drop (Suc k) s) = pat"
      by (metis Cons_nth_drop_Suc length_Cons list.inject lt take_Suc_Cons)
    moreover have "Suc k \<le> length s" using lt by simp
    ultimately have False using a unfolding find_sub_None_iff by blast }
  then show ?thesis unfolding find_sub_None_iff by blast
qed

lemma indexOf_None_suffix:
  "find_sub pat rest = None \<Longrightarrow> indexOf (pre @ rest) pat (length pre + k) = None"
  by (simp add: indexOf_def find_sub_drop)

lemma tagContents_None:
  "indexOf u endTag i = None \<Longrightarrow> tagContents u i endTag = Inl (closeTagError endTag)"
  by (simp add: tagContents_def)

lemma parseLoop_end:
  "\<not> i < length u \<Longrightarrow> parseLoop (Suc n) opts u i parsed = Inr (parsed @ ''`);}'')"
  by simp


lemma parseLoop_literal:
  "i < length u \<Longrightarrow> slice u i (i + length (OPEN opts)) \<noteq> OPEN opts \<Longrightarrow>
   parseLoop (Suc n) opts u i parsed = parseLoop n opts u (Suc i) (parsed @ literalChar (u ! i))"
  by (simp add: literalChar_def)

lemma parseLoop_comment:
  "i < length u \<Longrightarrow> slice u i (i + length (OPEN opts)) = OPEN opts \<Longrightarrow>
   charAt u (i + length (OPEN opts)) = Some (COMMENT opts) \<Longrightarrow>
   parseLoop (Suc n) opts u i parsed =
     (case tagContents u (i + length (OPEN opts)) (COMMENT opts @ CLOSE opts) of
        Inl e \<Rightarrow> Inl e
      | Inr (body, k) \<Rightarrow> parseLoop n opts u (nat (k + 1)) parsed)"
  by (simp add: Let_def)

lemma parseLoop_escape:
  "i < length u \<Longrightarrow> slice u i (i + length (OPEN opts)) = OPEN opts \<Longrightarrow>
   charAt u (i + length (OPEN opts)) \<noteq> Some (COMMENT opts) \<Longrightarrow>
   charAt u (i + length (OPEN opts)) = Some (ESCAPE opts) \<Longrightarrow>
   parseLoop (Suc n) opts u i parsed =
     (case tagContents u (i + length (OPEN opts) + 1) (CLOSE opts) of
        Inl e \<Rightarrow> Inl e
      | Inr (body, k) \<Rightarrow>
          parseLoop n opts u (nat (k + 1)) (parsed @ ''`,$xml('' @ body @ ''),`''))"
  by (simp add: Let_def)

lemma parseLoop_unescape:
  "i < length u \<Longrightarrow> slice u i (i + length (OPEN opts)) = OPEN opts \<Longrightarrow>
   charAt u (i + length (OPEN opts)) \<noteq> Some (COMMENT opts) \<Longrightarrow>
   charAt u (i + length (OPEN opts)) \<noteq> Some (ESCAPE opts) \<Longrightarrow>
   charAt u (i + length (OPEN opts)) = Some (UNESCAPE opts) \<Longrightarrow>
   parseLoop (Suc n) opts u i parsed =
     (case tagContents u (i + length (OPEN opts) + 1) (CLOSE opts) of
        Inl e \<Rightarrow> Inl e
      | Inr (body, k) \<Rightarrow>
          parseLoop n opts u (nat (k + 1)) (parsed @ ''`,('' @ body @ ''),`''))"
  by (simp add: Let_def)

lemma parseLoop_import:
  "i < length u \<Longrightarrow> slice u i (i + length (OPEN opts)) = OPEN opts \<Longrightarrow>
   charAt u (i + length (OPEN opts)) \<noteq> Some (COMMENT opts) \<Longrightarrow>
   charAt u (i + length (OPEN opts)) \<noteq> Some (ESCAPE opts) \<Longrightarrow>
   charAt u (i + length (OPEN opts)) \<noteq> Some (UNESCAPE opts) \<Longrightarrow>
   charAt u (i + length (OPEN opts)) = Some (IMPORT opts) \<Longrightarrow>
   parseLoop (Suc n) opts u i parsed =
     (case tagContents u (i + length (OPEN opts) + 1) (CLOSE opts) of
        Inl e \<Rightarrow> Inl e
      | Inr (body, k) \<Rightarrow>
          (case getTemplate n opts (trim (hd (split (CHR ''|'') body))) of
             Inl e \<Rightarrow> Inl e
           | Inr unparsedImport \<Rightarrow>
               parseLoop n opts u (nat (k + 1))
                 (parsed @ ''`,`'' @ ''`);(function($buffer,$locals){''
                    @ unparsedImport @ ''})($buffer,'' @ importLocals (split (CHR ''|'') body)
                    @ '');$buffer.push(`'')))"
  by (simp add: Let_def cong: sum.case_cong split: prod.splits)

lemma parseLoop_code:
  "i < length u \<Longrightarrow> slice u i (i + length (OPEN opts)) = OPEN opts \<Longrightarrow>
   charAt u (i + length (OPEN opts)) \<noteq> Some (COMMENT opts) \<Longrightarrow>
   charAt u (i + length (OPEN opts)) \<noteq> Some (ESCAPE opts) \<Longrightarrow>
   charAt u (i + length (OPEN opts)) \<noteq> Some (UNESCAPE opts) \<Longrightarrow>
   charAt u (i + length (OPEN opts)) \<noteq> Some (IMPORT opts) \<Longrightarrow>
   parseLoop (Suc n) opts u i parsed =
     (case tagContents u (i + length (OPEN opts)) (CLOSE opts) of
        Inl e \<Rightarrow> Inl e
      | Inr (body, k) \<Rightarrow>
          parseLoop n opts u (nat (k + 1)) (parsed @ ''`);'' @ body @ '';$buffer.push(`''))"
  by (simp add: Let_def)



lemma parseLoop_unterminated:
  assumes "i < length u" and "slice u i (i + length (OPEN opts)) = OPEN opts"
    and "indexOf u (closeMarker opts u (i + length (OPEN opts)))
           (bodyStart opts u (i + length (OPEN opts))) = None"
  shows "parseLoop (Suc n) opts u i parsed =
           Inl (closeTagError (closeMarker opts u (i + length (OPEN opts))))"
proof -
  let ?j = "i + length (OPEN opts)"
  consider (c) "charAt u ?j = Some (COMMENT opts)"
    | (e) "charAt u ?j \<noteq> Some (COMMENT opts)" "charAt u ?j = Some (ESCAPE opts)"
    | (u) "charAt u ?j \<noteq> Some (COMMENT opts)" "charAt u ?j \<noteq> Some (ESCAPE opts)"
          "charAt u ?j = Some (UNESCAPE opts)"
    | (i) "charAt u ?j \<noteq> Some (COMMENT opts)" "charAt u ?j \<noteq> Some (ESCAPE opts)"
          "charAt u ?j \<noteq> Some (UNESCAPE opts)" "charAt u ?j = Some (IMPORT opts)"
    | (d) "charAt u ?j \<noteq> Some (COMMENT opts)" "charAt u ?j \<noteq> Some (ESCAPE opts)"
          "charAt u ?j \<noteq> Some (UNESCAPE opts)" "charAt u ?j \<noteq> Some (IMPORT opts)"
    by blast
  then show ?thesis
  proof cases
    case c
    with assms(3) have "tagContents u ?j (COMMENT opts @ CLOSE opts)
        = Inl (closeTagError (COMMENT opts @ CLOSE opts))"
      by (simp add: closeMarker_def bodyStart_def tagContents_None)
    with c show ?thesis
      by (simp only: parseLoop_comment[OF assms(1,2) c] closeMarker_def) simp
  next
    case e
    with assms(3) have "tagContents u (?j + 1) (CLOSE opts) = Inl (closeTagError (CLOSE opts))"
      by (simp add: closeMarker_def bodyStart_def tagContents_None)
    with e show ?thesis
      by (simp only: parseLoop_escape[OF assms(1,2) e] closeMarker_def) simp
  next
    case u
    with assms(3) have "tagContents u (?j + 1) (CLOSE opts) = Inl (closeTagError (CLOSE opts))"
      by (simp add: closeMarker_def bodyStart_def tagContents_None)
    with u show ?thesis
      by (simp only: parseLoop_unescape[OF assms(1,2) u] closeMarker_def) simp
  next
    case i
    with assms(3) have "tagContents u (?j + 1) (CLOSE opts) = Inl (closeTagError (CLOSE opts))"
      by (simp add: closeMarker_def bodyStart_def tagContents_None)
    with i show ?thesis
      by (simp only: parseLoop_import[OF assms(1,2) i] closeMarker_def) simp
  next
    case d
    with assms(3) have "tagContents u ?j (CLOSE opts) = Inl (closeTagError (CLOSE opts))"
      by (simp add: closeMarker_def bodyStart_def tagContents_None)
    with d show ?thesis
      by (simp only: parseLoop_code[OF assms(1,2) d] closeMarker_def) simp
  qed
qed


declare parseLoop.simps [simp del]

lemma parseLoop_literals:
  "\<forall>k. i \<le> k \<and> k < i + m \<longrightarrow> slice u k (k + length (OPEN opts)) \<noteq> OPEN opts \<Longrightarrow>
   i + m \<le> length u \<Longrightarrow>
   parseLoop (n + m) opts u i parsed =
     parseLoop n opts u (i + m) (parsed @ concat (map literalChar (slice u i (i + m))))"
proof (induction m arbitrary: i parsed)
  case 0
  then show ?case by (simp add: slice_def)
next
  case (Suc m)
  have lt: "i < length u" using Suc.prems(2) by simp
  have ne: "slice u i (i + length (OPEN opts)) \<noteq> OPEN opts" using Suc.prems(1) by simp
  have step: "parseLoop (Suc (n + m)) opts u i parsed =
      parseLoop (n + m) opts u (Suc i) (parsed @ literalChar (u ! i))"
    by (rule parseLoop_literal[OF lt ne])
  have ih: "parseLoop (n + m) opts u (Suc i) (parsed @ literalChar (u ! i)) =
      parseLoop n opts u (Suc i + m)
        ((parsed @ literalChar (u ! i)) @ concat (map literalChar (slice u (Suc i) (Suc i + m))))"
    using Suc.prems by (intro Suc.IH) auto
  have sl: "slice u i (i + Suc m) = u ! i # slice u (Suc i) (Suc i + m)"
    using lt by (simp add: slice_def Cons_nth_drop_Suc[symmetric])
  show ?case using step ih sl by simp
qed

lemma tagfree_inside:
  "find_sub pat s = None \<Longrightarrow> k \<le> length s \<Longrightarrow> slice s k (k + length pat) \<noteq> pat"
  by (simp add: slice_def find_sub_None_iff)

lemma tagfree_prefix:
  assumes "find_sub ''<%'' pre = None" "k < length pre"
  shows "slice (pre @ CHR ''<'' # rest) k (k + 2) \<noteq> ''<%''"
proof (cases "k + 2 \<le> length pre")
  case True
  then have "slice (pre @ CHR ''<'' # rest) k (k + 2) = slice pre k (k + 2)"
    by (simp add: slice_def)
  then show ?thesis using tagfree_inside[OF assms(1), of k] assms(2) by simp
next
  case False
  with assms(2) have k: "length pre = Suc k" by simp
  then obtain x where "drop k pre = [x]"
    by (metis Cons_nth_drop_Suc assms(2) drop_all le_refl)
  then show ?thesis using assms(2) by (simp add: slice_def)
qed

lemma default_delimiters [simp]:
  "delimiters (handleOptions readFile None) = DEFAULT_DELIMITERS"
  by (simp add: handleOptions_def)

lemma default_markers [simp]:
  "d_open DEFAULT_DELIMITERS = ''<%''" "d_close DEFAULT_DELIMITERS = ''%>''"
  "d_escape DEFAULT_DELIMITERS = ''=''" "d_unescape DEFAULT_DELIMITERS = ''-''"
  "d_import DEFAULT_DELIMITERS = ''+''" "d_comment DEFAULT_DELIMITERS = ''!''"
  by (simp_all add: DEFAULT_DELIMITERS_def)

lemma scan_prefix:
  assumes d: "delimiters opts = DEFAULT_DELIMITERS" and tf: "find_sub ''<%'' pre = None"
  shows "parseLoop (n + length pre) opts (pre @ CHR ''<'' # rest) 0 parsed =
         parseLoop n opts (pre @ CHR ''<'' # rest) (length pre)
           (parsed @ concat (map literalChar pre))"
proof -
  have "\<forall>k. 0 \<le> k \<and> k < 0 + length pre \<longrightarrow>
      slice (pre @ CHR ''<'' # rest) k (k + length (OPEN opts)) \<noteq> OPEN opts"
    using tagfree_prefix[OF tf] d by simp
  from parseLoop_literals[OF this, of n parsed] show ?thesis by (simp add: slice_def)
qed

lemma unterminated_default:
  assumes d: "delimiters opts = DEFAULT_DELIMITERS" and tf: "find_sub ''<%'' pre = None"
    and nc: "find_sub ''%>'' rest = None"
  shows "parseLoop (Suc n) opts (pre @ ''<%'' @ rest) (length pre) parsed =
           Inl (closeTagError (if take 1 rest = ''!'' then ''!%>'' else ''%>''))"
proof -
  let ?u = "pre @ ''<%'' @ rest"
  have 1: "length pre < length ?u" by simp
  have 2: "slice ?u (length pre) (length pre + length (OPEN opts)) = OPEN opts"
    using d by (simp add: slice_def)
  have ca: "charAt ?u (length pre + 2) = (case rest of [] \<Rightarrow> None | c # _ \<Rightarrow> Some [c])"
    by (cases rest) (simp_all add: charAt_def nth_append)
  have cm: "closeMarker opts ?u (length pre + length (OPEN opts)) =
      (if take 1 rest = ''!'' then ''!%>'' else ''%>'')"
    using d ca by (cases rest) (auto simp add: closeMarker_def)
  have nc3: "find_sub ''!%>'' rest = None" by (rule find_sub_longer[OF nc])
  have u2: "?u = (pre @ ''<%'') @ rest" by simp
  have i1: "indexOf ?u pat (length pre + 2 + k) = None" if "find_sub pat rest = None" for pat k
    using indexOf_None_suffix[OF that, of "pre @ ''<%''" k] by simp
  have 3: "indexOf ?u (closeMarker opts ?u (length pre + length (OPEN opts)))
           (bodyStart opts ?u (length pre + length (OPEN opts))) = None"
    using d i1[OF nc, of 0] i1[OF nc, of 1] i1[OF nc3, of 0]
    by (auto simp add: closeMarker_def bodyStart_def)
  from parseLoop_unterminated[OF 1 2 3] cm show ?thesis by simp
qed

lemma find_sub_at:
  assumes "pat \<noteq> []" "find_sub pat (b @ butlast pat) = None"
  shows "find_sub pat (b @ pat @ post) = Some (length b)"
  using assms
proof (induction b)
  case Nil
  then obtain p ps where "pat = p # ps" by (cases pat) auto
  then show ?case by simp
next
  case (Cons x xs)
  from Cons.prems(2) have 1: "take (length pat) (x # xs @ butlast pat) \<noteq> pat"
    and 2: "find_sub pat (xs @ butlast pat) = None"
    by (auto split: if_splits)
  have "length pat \<le> length (x # xs @ butlast pat)" using Cons.prems(1) by simp
  moreover have "x # xs @ pat @ post = (x # xs @ butlast pat) @ [last pat] @ post"
    using Cons.prems(1) by simp
  ultimately have "take (length pat) (x # xs @ pat @ post) = take (length pat) (x # xs @ butlast pat)"
    by (metis append_eq_conv_conj take_all take_append append.right_neutral diff_is_0_eq take_0)
  with 1 have "take (length pat) (x # xs @ pat @ post) \<noteq> pat" by simp
  with Cons.IH[OF Cons.prems(1) 2] show ?case by simp
qed

declare getTemplate.simps [simp del] parseTemplate.simps [simp del]

lemma import_after_prefix:
  assumes d: "delimiters opts = DEFAULT_DELIMITERS" and tf: "find_sub ''<%'' pre = None"
    and nc: "find_sub ''%>'' (body @ ''%'') = None"
  shows "parseLoop (Suc n + length pre) opts (pre @ ''<%+'' @ body @ ''%>'' @ post) 0 parsed =
     (case getTemplate n opts (trim (hd (split (CHR ''|'') body))) of
        Inl e \<Rightarrow> Inl e
      | Inr unparsedImport \<Rightarrow>
          parseLoop n opts (pre @ ''<%+'' @ body @ ''%>'' @ post) (length pre + 3 + length body + 2)
            (parsed @ concat (map literalChar pre) @ ''`,`'' @ ''`);(function($buffer,$locals){''
               @ unparsedImport @ ''})($buffer,'' @ importLocals (split (CHR ''|'') body)
               @ '');$buffer.push(`''))"
proof -
  let ?u = "pre @ ''<%+'' @ body @ ''%>'' @ post"
  have u: "?u = pre @ CHR ''<'' # (''%+'' @ body @ ''%>'' @ post)" by simp
  have 0: "parseLoop (Suc n + length pre) opts ?u 0 parsed =
      parseLoop (Suc n) opts ?u (length pre) (parsed @ concat (map literalChar pre))"
    using scan_prefix[OF d tf, of "Suc n" "''%+'' @ body @ ''%>'' @ post" parsed] by simp
  have 1: "length pre < length ?u" by simp
  have 2: "slice ?u (length pre) (length pre + length (OPEN opts)) = OPEN opts"
    using d by (simp add: slice_def)
  have ca: "charAt ?u (length pre + length (OPEN opts)) = Some ''+''"
    using d by (simp add: charAt_def nth_append)
  have c3: "charAt ?u (length pre + length (OPEN opts)) \<noteq> Some (COMMENT opts)"
    "charAt ?u (length pre + length (OPEN opts)) \<noteq> Some (ESCAPE opts)"
    "charAt ?u (length pre + length (OPEN opts)) \<noteq> Some (UNESCAPE opts)"
    "charAt ?u (length pre + length (OPEN opts)) = Some (IMPORT opts)"
    using d ca by simp_all
  have fs: "find_sub ''%>'' (body @ ''%>'' @ post) = Some (length body)"
    using find_sub_at[of "''%>''" body post] nc by simp
  have dr: "drop (length pre + 3) ?u = body @ ''%>'' @ post" by simp
  have tc: "tagContents ?u (length pre + length (OPEN opts) + 1) (CLOSE opts) =
      Inr (body, int (length pre + 3 + length body + 2) - 1)"
    using d fs dr
    by (simp add: tagContents_def indexOf_def substring_def slice_def min_def max_def
          numeral_3_eq_3)
  have idx: "nat (int (length pre + 3 + length body + 2) - 1 + 1)
      = length pre + 3 + length body + 2"
    by (simp del: of_nat_add)
  show ?thesis
    unfolding 0 parseLoop_import[OF 1 2 c3] tc prod.case sum.case idx
    by (simp cong: sum.case_cong)
qed

subsection \<open>The loop, pass by pass\<close>

lemma parseLoop_body:
  "parseLoop (Suc n) opts u i parsed =
     (case loopBody (getTemplate n opts) opts u i parsed of
        Finished r \<Rightarrow> Inr r
      | Failed e \<Rightarrow> Inl e
      | Continue i' parsed' \<Rightarrow> parseLoop n opts u i' parsed')"
  by (simp add: parseLoop.simps loopBody_def Let_def split: sum.splits prod.splits)

lemma scan_parseLoop:
  "scan k n opts u i parsed = Some (i', parsed') \<Longrightarrow>
   k \<le> n \<and> parseLoop n opts u i parsed = parseLoop (n - k) opts u i' parsed'"
proof (induction k n opts u i parsed rule: scan.induct)
  case (3 k n options unparsed i parsed)
  then show ?case by (simp add: parseLoop_body split: step.splits)
qed simp_all

lemma scan_failed:
  assumes "scan k n opts u i0 p0 = Some (i, parsed)" "k < n"
    "loopBody (getTemplate (n - Suc k) opts) opts u i parsed = Failed e"
  shows "parseLoop n opts u i0 p0 = Inl e"
proof -
  from assms(2) obtain m where m: "n - k = Suc m" "m = n - Suc k"
    by (cases "n - k") auto
  from scan_parseLoop[OF assms(1)] have "parseLoop n opts u i0 p0 = parseLoop (Suc m) opts u i parsed"
    using m by simp
  then show ?thesis using assms(3) m by (simp add: parseLoop_body)
qed

lemma loopBody_unterminated:
  assumes "tagAt opts u i"
    and "indexOf u (closeMarker opts u (i + length (OPEN opts)))
           (bodyStart opts u (i + length (OPEN opts))) = None"
  shows "loopBody load opts u i parsed =
           Failed (closeTagError (closeMarker opts u (i + length (OPEN opts))))"
  using assms
  by (auto simp add: loopBody_def tagAt_def Let_def closeMarker_def bodyStart_def tagContents_None
      split: if_splits)

lemma loopBody_import:
  assumes "importTagAt opts u i" "load (importName opts u i) = Inl e"
  shows "loopBody load opts u i parsed = Failed e"
  using assms
  by (auto simp add: loopBody_def importTagAt_def importName_def tagAt_def Let_def tagContents_def
      split: option.splits)









subsection \<open>Unterminated tags\<close>

text \<open>
  C4. A tag whose close marker does not occur at or after the cursor makes the compile
  fail with the error whose message names that marker, wherever the tag stands and
  whatever the delimiters are; no compiled template is returned.

  \<^item> The first part is the pass of the loop that meets the tag: it fails, for any
    delimiters and any state of the loop.
  \<^item> The second part is the whole compile, for any options: when the scan of the
    template arrives, after any number of passes, at a tag without its close marker,
    \<open>compileTemplate\<close> returns the error.
  \<^item> The third and the fourth part are the loop as a whole: whatever makes a pass
    fail is the result of the loop, since no earlier pass catches it; in particular,
    at an import tag, the failure to load or to parse the imported template (so an
    unterminated tag in an imported template aborts the compile of the importer).
  \<^item> The last two parts are the special case of the default delimiters and a first
    tag that follows plain text.
\<close>

theorem unterminated_tag_aborts_compile:
  "(i < length u \<and> slice u i (i + length (OPEN opts)) = OPEN opts
      \<and> indexOf u (closeMarker opts u (i + length (OPEN opts)))
            (bodyStart opts u (i + length (OPEN opts))) = None
    \<longrightarrow> parseLoop (Suc n) opts u i parsed =
          Inl (Error (''Could not find matching close tag '' @ [CHR 0x27]
                 @ closeMarker opts u (i + length (OPEN opts)) @ [CHR 0x27] @ ''.'')))
   \<and> (scan k m (handleOptions readFile options) t 0 start = Some (c, acc) \<and> k < m
      \<and> tagAt (handleOptions readFile options) t c
      \<and> indexOf t (closeMarker (handleOptions readFile options) t
                     (c + length (OPEN (handleOptions readFile options))))
            (bodyStart (handleOptions readFile options) t
               (c + length (OPEN (handleOptions readFile options)))) = None
    \<longrightarrow> compileTemplate m readFile options t =
          Inl (Error (''Could not find matching close tag '' @ [CHR 0x27]
                 @ closeMarker (handleOptions readFile options) t
                     (c + length (OPEN (handleOptions readFile options)))
                 @ [CHR 0x27] @ ''.'')))
   \<and> (scan k m opts t c0 acc0 = Some (c, acc) \<and> k < m
      \<and> loopBody (getTemplate (m - Suc k) opts) opts t c acc = Failed err
    \<longrightarrow> parseLoop m opts t c0 acc0 = Inl err)
   \<and> (scan k m opts t c0 acc0 = Some (c, acc) \<and> k < m \<and> importTagAt opts t c
      \<and> getTemplate (m - Suc k) opts (importName opts t c) = Inl err
    \<longrightarrow> parseLoop m opts t c0 acc0 = Inl err)
   \<and> (find_sub ''<%'' pre = None \<and> find_sub ''%>'' rest = None \<and> length pre < m
    \<longrightarrow> compileTemplate m readFile None (pre @ ''<%'' @ rest) =
          Inl (Error (''Could not find matching close tag '' @ [CHR 0x27]
                 @ (if take 1 rest = ''!'' then ''!%>'' else ''%>'') @ [CHR 0x27] @ ''.'')))
   \<and> (delimiters opts = DEFAULT_DELIMITERS \<and> find_sub ''<%'' pre = None
      \<and> find_sub ''%>'' (body @ ''%'') = None
      \<and> getTemplate k opts (trim (hd (split (CHR ''|'') body))) = Inl err
    \<longrightarrow> parseLoop (Suc k + length pre) opts (pre @ ''<%+'' @ body @ ''%>'' @ post) 0 parsed
          = Inl err)"
proof (intro conjI impI)
  assume a: "i < length u \<and> slice u i (i + length (OPEN opts)) = OPEN opts
      \<and> indexOf u (closeMarker opts u (i + length (OPEN opts)))
            (bodyStart opts u (i + length (OPEN opts))) = None"
  then show "parseLoop (Suc n) opts u i parsed =
          Inl (Error (''Could not find matching close tag '' @ [CHR 0x27]
                 @ closeMarker opts u (i + length (OPEN opts)) @ [CHR 0x27] @ ''.''))"
    using parseLoop_unterminated[of i u opts n parsed] by (simp add: closeTagError_def)
next
  let ?o = "handleOptions readFile options"
  assume a: "scan k m ?o t 0 start = Some (c, acc) \<and> k < m \<and> tagAt ?o t c
      \<and> indexOf t (closeMarker ?o t (c + length (OPEN ?o)))
            (bodyStart ?o t (c + length (OPEN ?o))) = None"
  then have "loopBody (getTemplate (m - Suc k) ?o) ?o t c acc =
      Failed (closeTagError (closeMarker ?o t (c + length (OPEN ?o))))"
    by (simp add: loopBody_unterminated)
  with a have "parseLoop m ?o t 0 start =
      Inl (closeTagError (closeMarker ?o t (c + length (OPEN ?o))))"
    using scan_failed[of k m ?o t 0 start c acc] by simp
  then show "compileTemplate m readFile options t =
          Inl (Error (''Could not find matching close tag '' @ [CHR 0x27]
                 @ closeMarker ?o t (c + length (OPEN ?o)) @ [CHR 0x27] @ ''.''))"
    by (simp add: compileTemplate_def parseTemplate.simps start_def closeTagError_def)
next
  assume "scan k m opts t c0 acc0 = Some (c, acc) \<and> k < m
      \<and> loopBody (getTemplate (m - Suc k) opts) opts t c acc = Failed err"
  then show "parseLoop m opts t c0 acc0 = Inl err"
    using scan_failed[of k m opts t c0 acc0 c acc err] by simp
next
  assume a: "scan k m opts t c0 acc0 = Some (c, acc) \<and> k < m \<and> importTagAt opts t c
      \<and> getTemplate (m - Suc k) opts (importName opts t c) = Inl err"
  then have "loopBody (getTemplate (m - Suc k) opts) opts t c acc = Failed err"
    by (simp add: loopBody_import)
  with a show "parseLoop m opts t c0 acc0 = Inl err"
    using scan_failed[of k m opts t c0 acc0 c acc err] by simp
next
  assume a: "find_sub ''<%'' pre = None \<and> find_sub ''%>'' rest = None \<and> length pre < m"
  define j where "j = m - Suc (length pre)"
  have m: "m = Suc j + length pre" using a by (simp add: j_def)
  let ?opts = "handleOptions readFile None"
  have d: "delimiters ?opts = DEFAULT_DELIMITERS" by simp
  have "parseTemplate m ?opts (pre @ ''<%'' @ rest) =
      parseLoop (Suc j) ?opts (pre @ ''<%'' @ rest) (length pre)
        (''with($locals||{}){$buffer.push(`'' @ concat (map literalChar pre))"
    using scan_prefix[OF d, of pre "Suc j" "CHR ''%'' # rest"] a m
    by (simp add: parseTemplate.simps add.commute)
  also have "\<dots> = Inl (closeTagError (if take 1 rest = ''!'' then ''!%>'' else ''%>''))"
    using unterminated_default[OF d, of pre rest j] a by simp
  finally show "compileTemplate m readFile None (pre @ ''<%'' @ rest) =
          Inl (Error (''Could not find matching close tag '' @ [CHR 0x27]
                 @ (if take 1 rest = ''!'' then ''!%>'' else ''%>'') @ [CHR 0x27] @ ''.''))"
    by (simp add: compileTemplate_def closeTagError_def)
next
  assume a: "delimiters opts = DEFAULT_DELIMITERS \<and> find_sub ''<%'' pre = None
      \<and> find_sub ''%>'' (body @ ''%'') = None
      \<and> getTemplate k opts (trim (hd (split (CHR ''|'') body))) = Inl err"
  then show "parseLoop (Suc k + length pre) opts (pre @ ''<%+'' @ body @ ''%>'' @ post) 0 parsed
          = Inl err"
    using import_after_prefix[of opts pre body k post parsed] by simp
qed

theorem unterminated_tag_witness:
  "compileTemplate 1 noFiles None ''<%= unterminated'' =
     Inl (Error (''Could not find matching close tag '' @ [CHR 0x27] @ ''%>'' @ [CHR 0x27] @ ''.''))
   \<and> parseLoop (Suc 1 + length ''Hello '')
         (handleOptions noFiles (Some (optionsWith [(''broken'', ''<%= unterminated'')])))
         (''Hello '' @ ''<%+'' @ '' broken '' @ ''%>'' @ []) 0 []
       = Inl (Error (''Could not find matching close tag '' @ [CHR 0x27] @ ''%>'' @ [CHR 0x27] @ ''.''))
   \<and> compileTemplate 20 noFiles None ''<%= a %><%= unterminated'' =
       Inl (Error (''Could not find matching close tag '' @ [CHR 0x27] @ ''%>'' @ [CHR 0x27] @ ''.''))
   \<and> compileTemplate 20 noFiles (Some sameDelimiterOptions) ''a%= x%b%= y'' =
       Inl (Error (''Could not find matching close tag '' @ [CHR 0x27] @ ''%'' @ [CHR 0x27] @ ''.''))
   \<and> parseLoop 20 (handleOptions noFiles (Some (optionsWith [(''broken'', ''<%= unterminated'')])))
         ''<%= a %><%+ broken %>'' 0 start
       = Inl (Error (''Could not find matching close tag '' @ [CHR 0x27] @ ''%>'' @ [CHR 0x27] @ ''.''))"
proof -
  let ?opts = "handleOptions noFiles (Some (optionsWith [(''broken'', ''<%= unterminated'')]))"
  let ?err = "Error (''Could not find matching close tag '' @ [CHR 0x27] @ ''%>'' @ [CHR 0x27] @ ''.'')"
  have h5: "find_sub ''<%'' [] = None \<and> find_sub ''%>'' ''= unterminated'' = None
      \<and> length ([]::string) < (1::nat)"
    by code_simp
  have c5: "compileTemplate 1 noFiles None ([] @ ''<%'' @ ''= unterminated'') =
      Inl (Error (''Could not find matching close tag '' @ [CHR 0x27]
             @ (if take 1 ''= unterminated'' = ''!'' then ''!%>'' else ''%>'') @ [CHR 0x27] @ ''.''))"
    by (rule mp[OF conjunct1[OF conjunct2[OF conjunct2[OF conjunct2[OF conjunct2
          [OF unterminated_tag_aborts_compile]]]]] h5])
  have h6: "delimiters ?opts = DEFAULT_DELIMITERS \<and> find_sub ''<%'' ''Hello '' = None
      \<and> find_sub ''%>'' ('' broken '' @ ''%'') = None
      \<and> getTemplate 1 ?opts (trim (hd (split (CHR ''|'') '' broken ''))) = Inl ?err"
    by code_simp
  have c6: "parseLoop (Suc 1 + length ''Hello '') ?opts
      (''Hello '' @ ''<%+'' @ '' broken '' @ ''%>'' @ []) 0 [] = Inl ?err"
    by (rule mp[OF conjunct2[OF conjunct2[OF conjunct2[OF conjunct2[OF conjunct2
          [OF unterminated_tag_aborts_compile]]]]] h6])
  let ?d = "handleOptions noFiles None"
  let ?t = "''<%= a %><%= unterminated''"
  have h2: "scan 1 20 ?d ?t 0 start = Some (8, start @ ''`,$xml( a ),`'') \<and> (1::nat) < 20
      \<and> tagAt ?d ?t 8
      \<and> indexOf ?t (closeMarker ?d ?t (8 + length (OPEN ?d)))
            (bodyStart ?d ?t (8 + length (OPEN ?d))) = None"
    by code_simp
  have m2: "closeMarker ?d ?t (8 + length (OPEN ?d)) = ''%>''" by code_simp
  have c2: "compileTemplate 20 noFiles None ?t =
      Inl (Error (''Could not find matching close tag '' @ [CHR 0x27]
             @ closeMarker ?d ?t (8 + length (OPEN ?d)) @ [CHR 0x27] @ ''.''))"
    by (rule mp[OF conjunct1[OF conjunct2[OF unterminated_tag_aborts_compile]] h2])
  let ?s = "handleOptions noFiles (Some sameDelimiterOptions)"
  let ?u = "''a%= x%b%= y''"
  have h2': "scan 3 20 ?s ?u 0 start = Some (7, start @ ''a`,$xml( x),`b'') \<and> (3::nat) < 20
      \<and> tagAt ?s ?u 7
      \<and> indexOf ?u (closeMarker ?s ?u (7 + length (OPEN ?s)))
            (bodyStart ?s ?u (7 + length (OPEN ?s))) = None"
    by code_simp
  have m2': "closeMarker ?s ?u (7 + length (OPEN ?s)) = ''%''" by code_simp
  have c2': "compileTemplate 20 noFiles (Some sameDelimiterOptions) ?u =
      Inl (Error (''Could not find matching close tag '' @ [CHR 0x27]
             @ closeMarker ?s ?u (7 + length (OPEN ?s)) @ [CHR 0x27] @ ''.''))"
    by (rule mp[OF conjunct1[OF conjunct2[OF unterminated_tag_aborts_compile]] h2'])
  let ?v = "''<%= a %><%+ broken %>''"
  have h4: "scan 1 20 ?opts ?v 0 start = Some (8, start @ ''`,$xml( a ),`'') \<and> (1::nat) < 20
      \<and> importTagAt ?opts ?v 8
      \<and> getTemplate (20 - Suc 1) ?opts (importName ?opts ?v 8) = Inl ?err"
    by code_simp
  have c4: "parseLoop 20 ?opts ?v 0 start = Inl ?err"
    by (rule mp[OF conjunct1[OF conjunct2[OF conjunct2[OF conjunct2
          [OF unterminated_tag_aborts_compile]]]] h4])
  from c5 c6 c2 c2' c4 show ?thesis unfolding m2 m2' by simp
qed


subsection \<open>Equal delimiters\<close>

text \<open>
  \<open>handleOptions\<close> merges a configuration whose open delimiter equals its close
  delimiter like any other, and a template is then compiled with it: with \<open>%\<close> for
  both, \<open>a%= x%b\<close> compiles to a push of \<open>a\<close>, the escaped value of \<open>x\<close> and
  \<open>b\<close>.
\<close>

theorem equal_delimiters_counterexample:
  "OPEN (handleOptions noFiles (Some sameDelimiterOptions))
     = CLOSE (handleOptions noFiles (Some sameDelimiterOptions))
   \<and> compileTemplate 8 noFiles (Some sameDelimiterOptions) ''a%= x%b'' =
       Inr [SIife [SWith (EOr (EIdent ''$locals'') (EObject []))
                     [SPush [ETemplate ''a'', ECall ''$xml'' [EIdent ''x''], ETemplate ''b'']]]
              [EIdent ''$buffer'', EIdent ''$locals'']]"
  by code_simp

text \<open>
  C7 (as amended). A delimiter configuration whose open delimiter equals its close
  delimiter is not rejected: \<open>handleOptions\<close> has no failing branch and returns
  options that hold the two delimiters as they were given.
\<close>

theorem equal_delimiters_accepted:
  "delimiters_opt p = Some d \<and> p_open d = Some s \<and> p_close d = Some s
   \<longrightarrow> OPEN (handleOptions readFile (Some p)) = s
       \<and> CLOSE (handleOptions readFile (Some p)) = s"
  by (simp add: handleOptions_def assignDelimiters_def Let_def)

theorem equal_delimiters_accepted_witness:
  "delimiters_opt sameDelimiterOptions = Some sameDelimiters
   \<and> p_open sameDelimiters = Some ''%'' \<and> p_close sameDelimiters = Some ''%''
   \<and> OPEN (handleOptions noFiles (Some sameDelimiterOptions)) = ''%''
   \<and> CLOSE (handleOptions noFiles (Some sameDelimiterOptions)) = ''%''"
  using equal_delimiters_accepted[of sameDelimiterOptions sameDelimiters "''%''" noFiles]
  by (simp add: sameDelimiterOptions_def sameDelimiters_def)

subsection \<open>The cache option\<close>




subsection \<open>Templates that are one literal\<close>

lemma tc_end: "templateChars (CHR ''`'' # rest) = Some ([], rest)"
  by (cases rest) simp_all

lemma tc_regular:
  "ys \<noteq> [] \<Longrightarrow> c \<noteq> CHR ''`'' \<Longrightarrow> c \<noteq> CHR 0x5C \<Longrightarrow> c \<noteq> CHR ''$'' \<Longrightarrow> c \<noteq> CHR 0x0D \<Longrightarrow>
   templateChars (c # ys) = map_option (\<lambda>(t, r). (c # t, r)) (templateChars ys)"
  by (cases ys) simp_all

lemma tc_escaped:
  "d = CHR 0x5C \<or> d = CHR ''`'' \<or> d = CHR ''$'' \<Longrightarrow>
   templateChars (CHR 0x5C # d # ys) = map_option (\<lambda>(t, r). (d # t, r)) (templateChars ys)"
  by auto

lemma tc_crlf:
  "templateChars (CHR 0x0D # CHR 0x0A # ys) =
     map_option (\<lambda>(t, r). (CHR 0x0A # t, r)) (templateChars ys)"
  by simp

lemma tc_cr:
  "ys \<noteq> [] \<Longrightarrow> hd ys \<noteq> CHR 0x0A \<Longrightarrow>
   templateChars (CHR 0x0D # ys) = map_option (\<lambda>(t, r). (CHR 0x0A # t, r)) (templateChars ys)"
  by (cases ys) simp_all

lemma literalChar_nonempty: "literalChar c \<noteq> []"
  by (simp add: literalChar_def)

lemma hd_literalChar_not_lf: "d \<noteq> CHR 0x0A \<Longrightarrow> hd (literalChar d @ ys) \<noteq> CHR 0x0A"
  by (simp add: literalChar_def)

lemma templateChars_literal:
  "templateChars (concat (map literalChar X) @ CHR ''`'' # rest) = Some (lineFeeds X, rest)"
proof (induction X rule: lineFeeds.induct)
  case 1
  show ?case by (simp add: tc_end)
next
  case (2 c)
  consider (esc) "c = CHR 0x5C \<or> c = CHR ''`'' \<or> c = CHR ''$''" | (cr) "c = CHR 0x0D"
    | (reg) "c \<noteq> CHR ''`''" "c \<noteq> CHR 0x5C" "c \<noteq> CHR ''$''" "c \<noteq> CHR 0x0D"
    by blast
  then show ?case
  proof cases
    case esc
    then have "literalChar c = [CHR 0x5C, c]" by (auto simp add: literalChar_def)
    then show ?thesis using esc tc_escaped[OF esc, of "CHR ''`'' # rest"] by (auto simp add: tc_end)
  next
    case cr
    then have "literalChar c = [c]" by (simp add: literalChar_def)
    then show ?thesis using cr tc_cr[of "CHR ''`'' # rest"] by (simp add: tc_end)
  next
    case reg
    then have "literalChar c = [c]" by (simp add: literalChar_def)
    then show ?thesis using reg tc_regular[of "CHR ''`'' # rest" c] by (simp add: tc_end)
  qed
next
  case (3 c d cs)
  let ?tail = "concat (map literalChar (d # cs)) @ CHR ''`'' # rest"
  have ne: "?tail \<noteq> []" by simp
  consider (esc) "c = CHR 0x5C \<or> c = CHR ''`'' \<or> c = CHR ''$''"
    | (crlf) "c = CHR 0x0D" "d = CHR 0x0A"
    | (cr) "c = CHR 0x0D" "d \<noteq> CHR 0x0A"
    | (reg) "c \<noteq> CHR ''`''" "c \<noteq> CHR 0x5C" "c \<noteq> CHR ''$''" "c \<noteq> CHR 0x0D"
    by blast
  then show ?case
  proof cases
    case esc
    then have l: "literalChar c = [CHR 0x5C, c]" by (auto simp add: literalChar_def)
    have ih: "templateChars ?tail = Some (lineFeeds (d # cs), rest)"
      using 3(3) esc by auto
    have "templateChars (concat (map literalChar (c # d # cs)) @ CHR ''`'' # rest)
        = templateChars (CHR 0x5C # c # ?tail)" using l by simp
    also have "\<dots> = Some (c # lineFeeds (d # cs), rest)"
      using tc_escaped[OF esc, of ?tail] ih by simp
    finally show ?thesis using esc by auto
  next
    case crlf
    have l: "literalChar c = [c]" "literalChar d = [d]" using crlf by (simp_all add: literalChar_def)
    have ih: "templateChars (concat (map literalChar cs) @ CHR ''`'' # rest)
        = Some (lineFeeds cs, rest)"
      using 3(1) crlf by simp
    show ?thesis using l crlf ih by (simp add: tc_crlf del: templateChars.simps)
  next
    case cr
    have l: "literalChar c = [c]" using cr by (simp add: literalChar_def)
    have ih: "templateChars ?tail = Some (lineFeeds (d # cs), rest)"
      using 3(2) cr by simp
    have hd: "hd ?tail \<noteq> CHR 0x0A"
      using hd_literalChar_not_lf[OF cr(2)] by simp
    have "templateChars (concat (map literalChar (c # d # cs)) @ CHR ''`'' # rest)
        = templateChars (CHR 0x0D # ?tail)" using l cr by simp
    also have "\<dots> = Some (CHR 0x0A # lineFeeds (d # cs), rest)"
      using tc_cr[OF ne hd] ih by simp
    finally show ?thesis using cr by simp
  next
    case reg
    have l: "literalChar c = [c]" using reg by (simp add: literalChar_def)
    have ih: "templateChars ?tail = Some (lineFeeds (d # cs), rest)"
      using 3(3) reg by simp
    have "templateChars (concat (map literalChar (c # d # cs)) @ CHR ''`'' # rest)
        = templateChars (c # ?tail)" using l by simp
    also have "\<dots> = Some (c # lineFeeds (d # cs), rest)"
      using tc_regular[OF ne reg] ih by simp
    finally show ?thesis using reg by simp
  qed
qed


lemma js_template_primary:
  "parsePrimary (Suc n) (CHR ''`'' # concat (map literalChar X) @ CHR ''`'' # rest)
     = Inr (ETemplate (lineFeeds X), rest)"
  by (simp add: skipWs_def isWhiteSpace_def templateChars_literal)

lemma js_template_or:
  "stripPrefix ''||'' (skipWs rest) = None \<Longrightarrow>
   parseOr (Suc (Suc n)) (CHR ''`'' # concat (map literalChar X) @ CHR ''`'' # rest)
     = Inr (ETemplate (lineFeeds X), rest)"
  by (simp add: js_template_primary del: parsePrimary.simps)

lemma js_template_expr:
  "stripPrefix ''||'' (skipWs rest) = None \<Longrightarrow>
   parseExpr (Suc (Suc (Suc n))) (CHR ''`'' # concat (map literalChar X) @ CHR ''`'' # rest)
     = Inr (ETemplate (lineFeeds X), rest)"
  by (simp add: js_template_or skipWs_def isWhiteSpace_def identifierName_def isIdStart_def
        del: parseOr.simps)

lemma js_template_args:
  "parseArgs (Suc (Suc (Suc (Suc n))))
      (CHR ''`'' # concat (map literalChar X) @ CHR ''`'' # CHR '')'' # rest)
     = Inr ([ETemplate (lineFeeds X)], rest)"
proof -
  have 1: "stripPrefix ''||'' (skipWs (CHR '')'' # rest)) = None"
    by (simp add: stripPrefix_def skipWs_def isWhiteSpace_def)
  show ?thesis
    by (simp add: js_template_expr[OF 1] stripPrefix_def skipWs_def isWhiteSpace_def
          del: parseExpr.simps)
qed

lemma js_push_stmt:
  "parseStmt (Suc n) (''$buffer.push(`'' @ concat (map literalChar X) @ ''`);'' @ rest)
     = Inr (SPush [ETemplate (lineFeeds X)], rest)"
proof -
  let ?s = "''$buffer.push(`'' @ concat (map literalChar X) @ ''`);'' @ rest"
  obtain k where k: "length ?s = Suc (Suc (Suc (Suc k)))" by simp
  have d: "drop 13 ?s = CHR ''`'' # concat (map literalChar X) @ CHR ''`'' # CHR '')'' # CHR '';'' # rest"
    by simp
  have a: "parseArgs (length ?s) (drop 13 ?s) = Inr ([ETemplate (lineFeeds X)], CHR '';'' # rest)"
    unfolding k d by (rule js_template_args)
  have p1: "stripPrefix '';'' ?s = None" by (simp add: stripPrefix_def)
  have p2: "stripPrefix ''$buffer.push('' ?s \<noteq> None" by (simp add: stripPrefix_def)
  have p3: "stripPrefix '';'' (skipWs (CHR '';'' # rest)) = Some rest"
    by (simp add: stripPrefix_def skipWs_def isWhiteSpace_def)
  show ?thesis
    unfolding parseStmt.simps using p1 p2 p3 a by (simp del: parseArgs.simps)
qed

lemmas lex_defs = stripPrefix_def skipWs_def isWhiteSpace_def identifierName_def isIdStart_def
  isIdPart_def isDigit_def continuesName_def isAssignOp_def reserved_def

lemma js_locals_or_empty:
  "parseExpr (Suc (Suc (Suc (Suc (Suc (Suc n)))))) (''$locals||{})'' @ rest)
     = Inr (EOr (EIdent ''$locals'') (EObject []), CHR '')'' # rest)"
  by (simp add: lex_defs)

lemma js_iife_args:
  "parseArgs (Suc (Suc (Suc (Suc (Suc (Suc (Suc (Suc n)))))))) (''$buffer,$locals);'' @ rest)
     = Inr ([EIdent ''$buffer'', EIdent ''$locals''], CHR '';'' # rest)"
  by (simp add: lex_defs)

lemma js_stmts_stop:
  "parseStmts (Suc n) (CHR ''}'' # rest) = Inr ([], CHR ''}'' # rest)"
  by (simp add: lex_defs)

lemma js_push_stmts:
  "parseStmts (Suc (Suc (Suc n)))
      (''$buffer.push(`'' @ concat (map literalChar X) @ ''`);}'' @ rest)
     = Inr ([SPush [ETemplate (lineFeeds X)]], CHR ''}'' # rest)"
proof -
  let ?s = "''$buffer.push(`'' @ concat (map literalChar X) @ ''`);}'' @ rest"
  have sk: "skipWs ?s = ?s" by (simp add: lex_defs)
  have c: "skipWs ?s \<noteq> []" "stripPrefix ''}'' (skipWs ?s) = None"
    "stripPrefix ''return'' (skipWs ?s) = None"
    by (simp_all add: lex_defs)
  have 1: "parseStmt (Suc (Suc n)) ?s = Inr (SPush [ETemplate (lineFeeds X)], CHR ''}'' # rest)"
    using js_push_stmt[of "Suc n" X "CHR ''}'' # rest"] by simp
  have 2: "parseStmts (Suc (Suc n)) (CHR ''}'' # rest) = Inr ([], CHR ''}'' # rest)"
    by (rule js_stmts_stop)
  show ?thesis
    unfolding parseStmts.simps(2)[of "Suc (Suc n)"] using c sk 1 2
    by (simp del: parseStmts.simps parseStmt.simps)
qed

lemma js_with_stmt:
  "parseStmt (Suc (Suc (Suc (Suc n))))
      (''with($locals||{}){$buffer.push(`'' @ concat (map literalChar X) @ ''`);}'' @ rest)
     = Inr (SWith (EOr (EIdent ''$locals'') (EObject [])) [SPush [ETemplate (lineFeeds X)]], rest)"
proof -
  let ?s = "''with($locals||{}){$buffer.push(`'' @ concat (map literalChar X) @ ''`);}'' @ rest"
  let ?b = "''$buffer.push(`'' @ concat (map literalChar X) @ ''`);}'' @ rest"
  obtain k where k: "length ?s = Suc (Suc (Suc (Suc (Suc (Suc k)))))" by simp
  have d: "drop 5 ?s = ''$locals||{})'' @ CHR ''{'' # ?b" by simp
  have e: "parseExpr (length ?s) (drop 5 ?s)
      = Inr (EOr (EIdent ''$locals'') (EObject []), CHR '')'' # CHR ''{'' # ?b)"
    unfolding k d by (rule js_locals_or_empty)
  have p: "stripPrefix '';'' ?s = None" "stripPrefix ''$buffer.push('' ?s = None"
    "stripPrefix ''(function($buffer,$locals){'' ?s = None" "stripPrefix ''with('' ?s \<noteq> None"
    by (simp_all add: stripPrefix_def)
  have q: "stripPrefix '')'' (skipWs (CHR '')'' # CHR ''{'' # ?b)) = Some (CHR ''{'' # ?b)"
    "stripPrefix ''{'' (skipWs (CHR ''{'' # ?b)) = Some ?b"
    "stripPrefix ''}'' (CHR ''}'' # rest) = Some rest"
    by (simp_all add: lex_defs)
  have b: "parseStmts (Suc (Suc (Suc n))) ?b
      = Inr ([SPush [ETemplate (lineFeeds X)]], CHR ''}'' # rest)"
    by (rule js_push_stmts)
  show ?thesis
    unfolding parseStmt.simps(2)[of "Suc (Suc (Suc n))"] using p q e b
    by (simp del: parseStmts.simps parseStmt.simps parseExpr.simps)
qed

lemma js_iife_stmt:
  "parseStmt (Suc (Suc (Suc (Suc (Suc (Suc n))))))
      (''(function($buffer,$locals){with($locals||{}){$buffer.push(`''
         @ concat (map literalChar X) @ ''`);}})($buffer,$locals);'' @ rest)
     = Inr (SIife [SWith (EOr (EIdent ''$locals'') (EObject []))
                     [SPush [ETemplate (lineFeeds X)]]]
              [EIdent ''$buffer'', EIdent ''$locals''], rest)"
proof -
  let ?w = "''with($locals||{}){$buffer.push(`'' @ concat (map literalChar X) @ ''`);}''"
  let ?s = "''(function($buffer,$locals){'' @ ?w @ ''})($buffer,$locals);'' @ rest"
  let ?t = "CHR ''}'' # '')($buffer,$locals);'' @ rest"
  obtain k where k: "length ?s = Suc (Suc (Suc (Suc (Suc (Suc (Suc (Suc k)))))))" by simp
  have d: "drop 27 ?s = ?w @ ?t" by simp
  have sk: "skipWs (?w @ ?t) = ?w @ ?t" by (simp add: lex_defs)
  have c: "skipWs (?w @ ?t) \<noteq> []" "stripPrefix ''}'' (skipWs (?w @ ?t)) = None"
    "stripPrefix ''return'' (skipWs (?w @ ?t)) = None"
    by (simp_all add: lex_defs)
  have w: "parseStmt (Suc (Suc (Suc (Suc n)))) (?w @ ?t)
      = Inr (SWith (EOr (EIdent ''$locals'') (EObject [])) [SPush [ETemplate (lineFeeds X)]], ?t)"
    using js_with_stmt[of n X ?t] by simp
  have st: "parseStmts (Suc (Suc (Suc (Suc n)))) ?t = Inr ([], ?t)"
    by (rule js_stmts_stop)
  have body: "parseStmts (Suc (Suc (Suc (Suc (Suc n))))) (drop 27 ?s)
      = Inr ([SWith (EOr (EIdent ''$locals'') (EObject [])) [SPush [ETemplate (lineFeeds X)]]], ?t)"
    unfolding d parseStmts.simps(2)[of "Suc (Suc (Suc (Suc n)))"] using c sk w st
    by (simp del: parseStmts.simps parseStmt.simps)
  have p: "stripPrefix '';'' ?s = None" "stripPrefix ''$buffer.push('' ?s = None"
    "stripPrefix ''(function($buffer,$locals){'' ?s \<noteq> None"
    by (simp_all add: stripPrefix_def)
  have q: "stripPrefix ''})('' ?t = Some (''$buffer,$locals);'' @ rest)"
    "stripPrefix '';'' (skipWs (CHR '';'' # rest)) = Some rest"
    by (simp_all add: lex_defs)
  have a: "parseArgs (length ?s) (''$buffer,$locals);'' @ rest)
      = Inr ([EIdent ''$buffer'', EIdent ''$locals''], CHR '';'' # rest)"
    unfolding k by (rule js_iife_args)
  show ?thesis
    unfolding parseStmt.simps(2)[of "Suc (Suc (Suc (Suc (Suc n))))"] using p q body a
    by (simp del: parseStmts.simps parseStmt.simps parseArgs.simps)
qed

lemma newFunction_literal:
  "newFunction (wrap (''with($locals||{}){$buffer.push(`'' @ concat (map literalChar X) @ ''`);}''))
     = Inr (literalProgram (lineFeeds X))"
proof -
  let ?i = "''(function($buffer,$locals){with($locals||{}){$buffer.push(`''
         @ concat (map literalChar X) @ ''`);}})($buffer,$locals);''"
  let ?r = "''return $buffer.join(``);''"
  let ?body = "''var $buffer=[];'' @ ?i @ ?r"
  have w: "wrap (''with($locals||{}){$buffer.push(`'' @ concat (map literalChar X) @ ''`);}'')
      = ?body"
    by (simp add: wrap_def)
  obtain k where k: "length ?body = Suc (Suc (Suc (Suc (Suc (Suc (Suc k))))))" by simp
  have sp: "stripPrefix ''var $buffer=[];'' ?body = Some (?i @ ?r)" by (simp add: stripPrefix_def)
  have sk: "skipWs (?i @ ?r) = ?i @ ?r" "skipWs ?r = ?r" by (simp_all add: lex_defs)
  have c: "skipWs (?i @ ?r) \<noteq> []" "stripPrefix ''}'' (skipWs (?i @ ?r)) = None"
    "stripPrefix ''return'' (skipWs (?i @ ?r)) = None"
    by (simp_all add: lex_defs)
  have i: "parseStmt (Suc (Suc (Suc (Suc (Suc (Suc k)))))) (?i @ ?r)
      = Inr (SIife [SWith (EOr (EIdent ''$locals'') (EObject []))
                     [SPush [ETemplate (lineFeeds X)]]]
              [EIdent ''$buffer'', EIdent ''$locals''], ?r)"
    using js_iife_stmt[of k X ?r] by simp
  have e: "parseStmts (Suc (Suc (Suc (Suc (Suc (Suc k)))))) ?r = Inr ([], ?r)"
    by (simp add: lex_defs)
  have "parseStmts (length ?body) (?i @ ?r) = Inr (literalProgram (lineFeeds X), ?r)"
    unfolding k parseStmts.simps(2)[of "Suc (Suc (Suc (Suc (Suc (Suc k)))))"] using c sk i e
    by (simp add: literalProgram_def del: parseStmts.simps parseStmt.simps)
  then show ?thesis
    unfolding w newFunction_def sp by simp
qed

lemma render_literal_object:
  "r < length (heap st) \<Longrightarrow> map_of (heap st ! r) ''$buffer'' = None \<Longrightarrow>
   render (literalProgram t) (Ref r) st = Inr (t, st\<lparr>buffer := [Str t]\<rparr>)"
  by (simp add: render_def literalProgram_def argument_def objectPrototypeNames_def)

lemma render_literal_falsy:
  "\<not> truthy l \<Longrightarrow>
   render (literalProgram t) l st = Inr (t, st\<lparr>heap := heap st @ [[]], buffer := [Str t]\<rparr>)"
  by (simp add: render_def literalProgram_def argument_def objectPrototypeNames_def nth_append)

lemma parseTemplate_literal:
  assumes d: "delimiters opts = DEFAULT_DELIMITERS" and tf: "find_sub ''<%'' t = None"
  shows "parseTemplate (Suc n + length t) opts t =
           Inr (''with($locals||{}){$buffer.push(`'' @ concat (map literalChar t) @ ''`);}'')"
proof -
  have "\<forall>k. 0 \<le> k \<and> k < 0 + length t \<longrightarrow> slice t k (k + length (OPEN opts)) \<noteq> OPEN opts"
    using tagfree_inside[OF tf] d by simp
  from parseLoop_literals[OF this, of "Suc n" "''with($locals||{}){$buffer.push(`''"]
  show ?thesis by (simp add: parseTemplate.simps slice_def parseLoop_end)
qed



subsection \<open>Comments and plain text\<close>

lemma compile_literal:
  assumes tf: "find_sub ''<%'' t = None" and n: "length t < m"
  shows "compileTemplate m readFile None t = Inr (literalProgram (lineFeeds t))"
proof -
  define k where "k = m - Suc (length t)"
  have m: "m = Suc k + length t" using n by (simp add: k_def)
  have d: "delimiters (handleOptions readFile None) = DEFAULT_DELIMITERS" by simp
  show ?thesis
    unfolding compileTemplate_def m parseTemplate_literal[OF d tf] sum.case newFunction_literal ..
qed


lemma outcome_simps [simp]:
  "outcome (Inl e) = Inl e" "outcome (Inr (v, st)) = Inr v"
  by (simp_all add: outcome_def)

lemma render_literal:
  assumes "plainLocals l st"
  shows "outcome (render (literalProgram t) l st) = Inr t"
proof (cases "truthy l")
  case False
  then show ?thesis using render_literal_falsy[of l t st] by simp
next
  case True
  with assms obtain r where r: "l = Ref r" "r < length (heap st)"
      "map_of (heap st ! r) ''$buffer'' = None"
    by (cases l) (auto simp add: plainLocals_def)
  then show ?thesis using render_literal_object[of r st t] by simp
qed



text \<open>
  C1. A template without a tag is meant to render to itself. The code puts the text
  into a template literal and escapes the backslash, the backtick and the dollar sign,
  but not the carriage return, which the host replaces by a line feed when it reads
  the literal: the template \<open>a\<close>, carriage return, \<open>b\<close> renders to \<open>a\<close>, line feed,
  \<open>b\<close>.
\<close>

theorem carriage_return_becomes_line_feed:
  "outcome
     (compileAndRender 4 None [CHR ''a'', CHR 0x0D, CHR ''b''] Undefined emptyState)
     = Inr [CHR ''a'', CHR 0x0A, CHR ''b'']"
  by code_simp

text \<open>
  What holds in general: a template without a tag compiles to one literal and renders
  to its text with the line ends normalised; this is the text itself when it holds no
  carriage return.
\<close>

lemma literal_template_renders_text:
  "find_sub ''<%'' t = None \<and> length t < m \<and> plainLocals locals st
   \<longrightarrow> compileTemplate m readFile None t = Inr (literalProgram (lineFeeds t))
       \<and> outcome (render (literalProgram (lineFeeds t)) locals st) = Inr (lineFeeds t)"
proof (intro impI conjI)
  assume a: "find_sub ''<%'' t = None \<and> length t < m \<and> plainLocals locals st"
  then show "compileTemplate m readFile None t = Inr (literalProgram (lineFeeds t))"
    using compile_literal[of t m readFile] by blast
  from a show "outcome (render (literalProgram (lineFeeds t)) locals st) = Inr (lineFeeds t)"
    using render_literal[of locals st "lineFeeds t"] by blast
qed

subsection \<open>Output tags and imports\<close>

lemma replaceClass_entities:
  "replaceClass {CHR ''<'', CHR ''>'', CHR ''&'', CHR 0x27, CHR 0x22} escapeChar s
     = concat (map htmlEntity s)"
proof -
  have "(if c \<in> {CHR ''<'', CHR ''>'', CHR ''&'', CHR 0x27, CHR 0x22} then escapeChar c else [c])
      = htmlEntity c" for c
    by (simp add: htmlEntity_def)
  then show ?thesis by (simp add: replaceClass_def)
qed

lemma escape_Str: "escape (Str s) = Inr (concat (map htmlEntity s))"
  by (simp add: escape_def replaceClass_entities)

lemma compile_escaped_x:
  "compileTemplate 16 noFiles None ''<%= x %>'' =
     Inr [SIife [SWith (EOr (EIdent ''$locals'') (EObject []))
                   [SPush [ETemplate [], ECall ''$xml'' [EIdent ''x''], ETemplate []]]]
            [EIdent ''$buffer'', EIdent ''$locals'']]"
  by code_simp

lemma compile_unescaped_x:
  "compileTemplate 16 noFiles None ''<%- x %>'' =
     Inr [SIife [SWith (EOr (EIdent ''$locals'') (EObject []))
                   [SPush [ETemplate [], EIdent ''x'', ETemplate []]]]
            [EIdent ''$buffer'', EIdent ''$locals'']]"
  by code_simp

lemma render_escaped_x:
  "outcome (compileAndRender 16 None ''<%= x %>'' (Ref 0) (localsState [(''x'', Str s)]))
     = Inr (concat (map htmlEntity s))"
  unfolding compileAndRender_def compile_escaped_x
  by (simp add: render_def argument_def objectPrototypeNames_def localsState_def escape_Str)

lemma render_unescaped_x:
  "outcome (compileAndRender 16 None ''<%- x %>'' (Ref 0) (localsState [(''x'', Str s)]))
     = Inr s"
  unfolding compileAndRender_def compile_unescaped_x
  by (simp add: render_def argument_def objectPrototypeNames_def localsState_def)

text \<open>
  C2. The default escaper maps the five characters \<open><\<close>, \<open>>\<close>, \<open>&\<close>, the single and
  the double quote to their named entities and keeps every other character, in order;
  it maps \<open>null\<close> and \<open>undefined\<close> to the empty string. An escaped-output tag
  renders the escaped value of its expression and an unescaped-output tag the value
  itself: for the value \<open><b>\<close> these are \<open>&lt;b&gt;\<close> and \<open><b>\<close>.
\<close>

theorem default_escaper:
  "escape (Str s) = Inr (concat (map htmlEntity s))
   \<and> escape Null = Inr [] \<and> escape Undefined = Inr []
   \<and> outcome
        (compileAndRender 16 None ''<%= x %>'' (Ref 0) (localsState [(''x'', Str s)]))
       = Inr (concat (map htmlEntity s))
   \<and> outcome
        (compileAndRender 16 None ''<%- x %>'' (Ref 0) (localsState [(''x'', Str s)]))
       = Inr s
   \<and> outcome
        (compileAndRender 16 None ''<%= x %>'' (Ref 0) (localsState [(''x'', Str ''<b>'')]))
       = Inr ''&lt;b&gt;''
   \<and> outcome
        (compileAndRender 16 None ''<%- x %>'' (Ref 0) (localsState [(''x'', Str ''<b>'')]))
       = Inr ''<b>''"
proof -
  have "concat (map htmlEntity ''<b>'') = ''&lt;b&gt;''" by code_simp
  then show ?thesis
    using render_escaped_x[of "''<b>''"]
    by (simp only: escape_Str render_escaped_x render_unescaped_x)
       (simp add: escape_def)
qed

lemma join_skips:
  "v = Undefined \<or> v = Null \<Longrightarrow> join (xs @ v # ys) = join (xs @ ys)"
  by (induction xs) (auto split: sum.splits)

lemma push_keeps_value:
  assumes "lookup sc st ''$buffer'' = Inr VBuf" "eval sc e st = Inr (v, st')"
  shows "exec sc (SPush [ETemplate a, e, ETemplate b]) st
           = Inr (st'\<lparr>buffer := buffer st' @ [Str a, v, Str b]\<rparr>)"
  using assms by simp

text \<open>
  C10. An unescaped-output tag whose expression evaluates to \<open>null\<close> or \<open>undefined\<close>
  adds nothing to the output. The join of the buffer skips an element that is
  \<open>undefined\<close> or \<open>null\<close>, wherever it stands; the push that an unescaped-output tag
  generates puts the value of the expression into the buffer as it is; and the
  templates \<open>a<%- x %>b\<close>, with \<open>x\<close> bound to either value, \<open>a<%- undefined %>b\<close> and
  \<open>a<%- null %>b\<close> render to \<open>ab\<close>.
\<close>

theorem unescaped_null_renders_empty:
  "join (xs @ Undefined # ys) = join (xs @ ys)
   \<and> join (xs @ Null # ys) = join (xs @ ys)
   \<and> (lookup sc st ''$buffer'' = Inr VBuf \<and> eval sc e st = Inr (v, st')
      \<longrightarrow> exec sc (SPush [ETemplate a, e, ETemplate b]) st
            = Inr (st'\<lparr>buffer := buffer st' @ [Str a, v, Str b]\<rparr>))
   \<and> outcome
        (compileAndRender 16 None ''a<%- x %>b'' (Ref 0) (localsState [(''x'', Undefined)]))
       = Inr ''ab''
   \<and> outcome
        (compileAndRender 16 None ''a<%- x %>b'' (Ref 0) (localsState [(''x'', Null)]))
       = Inr ''ab''
   \<and> outcome (compileAndRender 24 None ''a<%- undefined %>b'' Undefined emptyState)
       = Inr ''ab''
   \<and> outcome (compileAndRender 24 None ''a<%- null %>b'' Undefined emptyState)
       = Inr ''ab''"
proof -
  have 1: "outcome
        (compileAndRender 16 None ''a<%- x %>b'' (Ref 0) (localsState [(''x'', Undefined)]))
       = Inr ''ab''" by code_simp
  have 2: "outcome
        (compileAndRender 16 None ''a<%- x %>b'' (Ref 0) (localsState [(''x'', Null)]))
       = Inr ''ab''" by code_simp
  have 3: "outcome (compileAndRender 24 None ''a<%- undefined %>b'' Undefined emptyState)
       = Inr ''ab''" by code_simp
  have 4: "outcome (compileAndRender 24 None ''a<%- null %>b'' Undefined emptyState)
       = Inr ''ab''" by code_simp
  show ?thesis
    using join_skips[of Undefined xs ys] join_skips[of Null xs ys]
      push_keeps_value[of sc st e v st' a b] 1 2 3 4
    by blast
qed

theorem unescaped_null_witness:
  "lookup [FFun [(''$buffer'', VBuf)]] emptyState ''$buffer'' = Inr VBuf
   \<and> eval [FFun [(''$buffer'', VBuf)]] ENull emptyState = Inr (Null, emptyState)
   \<and> exec [FFun [(''$buffer'', VBuf)]] (SPush [ETemplate ''a'', ENull, ETemplate ''b'']) emptyState
       = Inr (emptyState\<lparr>buffer := buffer emptyState @ [Str ''a'', Null, Str ''b'']\<rparr>)
   \<and> join [Str ''a'', Null, Str ''b''] = Inr ''ab''"
proof -
  have h: "lookup [FFun [(''$buffer'', VBuf)]] emptyState ''$buffer'' = Inr VBuf
      \<and> eval [FFun [(''$buffer'', VBuf)]] ENull emptyState = Inr (Null, emptyState)"
    by code_simp
  have j: "join [Str ''a'', Null, Str ''b''] = Inr ''ab''" by code_simp
  have "exec [FFun [(''$buffer'', VBuf)]] (SPush [ETemplate ''a'', ENull, ETemplate ''b'']) emptyState
       = Inr (emptyState\<lparr>buffer := buffer emptyState @ [Str ''a'', Null, Str ''b'']\<rparr>)"
    by (rule mp[OF conjunct1[OF conjunct2[OF conjunct2[OF unescaped_null_renders_empty]]] h])
  with h j show ?thesis by blast
qed

text \<open>
  C5. The body of an import tag is split at every pipe character and only the first
  two pieces are used, so a locals-expression that holds a pipe is cut: for
  \<open><%+ world | a || b %>\<close> the generated call passes \<open>a\<close>, not \<open>a || b\<close>. With
  \<open>a\<close> bound to \<open>null\<close> and \<open>b\<close> to an object whose \<open>x\<close> is \<open>B\<close>, the imported
  template \<open><%= x %>\<close> does not render \<open>B\<close> but the importer's own \<open>x\<close>.
\<close>

theorem import_locals_cut_at_second_pipe:
  "parseTemplate 16 (handleOptions noFiles (Some OPTIONS)) ''<%+ world | a || b %>''
     = Inr (''with($locals||{}){$buffer.push(``,``);(function($buffer,$locals){''
            @ ''with($locals||{}){$buffer.push(`World`);}'' @ ''})($buffer,a);$buffer.push(``);}'')
   \<and> outcome
        (compileAndRender 24 (Some (optionsWith [(''child'', ''<%= x %>'')]))
           ''<%+ child | a || b %>'' (Ref 0)
           \<lparr>heap = [[(''a'', Null), (''b'', Ref 1), (''x'', Str ''outer'')], [(''x'', Str ''B'')]],
            globals = [], buffer = []\<rparr>)
       = Inr ''outer''"
  by code_simp

text \<open>
  The example of the test suite: \<open>Hello <%+ world %>\<close> renders to \<open>Hello World\<close>.
\<close>

lemma import_example:
  "outcome (compileAndRender 16 (Some OPTIONS) ''Hello <%+ world %>'' Undefined emptyState)
     = Inr ''Hello World''"
  by code_simp

subsection \<open>Scopes of imported templates\<close>





subsection \<open>Rendering twice\<close>

lemma lookup_buffer [simp]: "lookup sc (st\<lparr>buffer := b\<rparr>) x = lookup sc st x"
  by (induction sc st x rule: lookup.induct) (auto split: option.splits)




lemma lookup_funs_heap:
  "lookup [FFun bs, FFun cs] (s\<lparr>heap := h\<rparr>) x = lookup [FFun bs, FFun cs] s x"
  by (simp split: option.splits)








end
